theory Spec2Isabelle
  imports Main "HOL-Library.Word" "HOL-Library.Sublist"
begin

section \<open>Strings and numbers of the host language\<close>

text \<open>
  A string of the action is a sequence of UTF-16 code units; \<open>js\<close> embeds an ASCII
  literal.  A number is either \<open>NaN\<close> or an integer: every number the action computes
  with comes from \<open>parseInt\<close>, from a length, or from calendar arithmetic.  Integers are
  unbounded here; the source agrees with that below \<open>2 ^ 53\<close> in magnitude.
\<close>

type_synonym jschar = "16 word"
type_synonym jsstring = "jschar list"

definition js :: "string \<Rightarrow> jsstring" where
  "js s = map (\<lambda>c. of_nat (of_char c)) s"

datatype jsnum = NaN | Num int

definition isNaN :: "jsnum \<Rightarrow> bool" where
  "isNaN x = (case x of NaN \<Rightarrow> True | Num _ \<Rightarrow> False)"

definition num_add :: "jsnum \<Rightarrow> jsnum \<Rightarrow> jsnum" where
  "num_add x y = (case x of NaN \<Rightarrow> NaN | Num a \<Rightarrow> (case y of NaN \<Rightarrow> NaN | Num b \<Rightarrow> Num (a + b)))"

definition num_sub :: "jsnum \<Rightarrow> jsnum \<Rightarrow> jsnum" where
  "num_sub x y = (case x of NaN \<Rightarrow> NaN | Num a \<Rightarrow> (case y of NaN \<Rightarrow> NaN | Num b \<Rightarrow> Num (a - b)))"

text \<open>Comparisons with \<open>NaN\<close> are false.\<close>

definition num_le :: "jsnum \<Rightarrow> jsnum \<Rightarrow> bool" where
  "num_le x y = (case x of NaN \<Rightarrow> False | Num a \<Rightarrow> (case y of NaN \<Rightarrow> False | Num b \<Rightarrow> a \<le> b))"

definition num_lt :: "jsnum \<Rightarrow> jsnum \<Rightarrow> bool" where
  "num_lt x y = (case x of NaN \<Rightarrow> False | Num a \<Rightarrow> (case y of NaN \<Rightarrow> False | Num b \<Rightarrow> a < b))"

definition num_ge :: "jsnum \<Rightarrow> jsnum \<Rightarrow> bool" where
  "num_ge x y = num_le y x"

definition num_eq :: "jsnum \<Rightarrow> jsnum \<Rightarrow> bool" where
  "num_eq x y = (case x of NaN \<Rightarrow> False | Num a \<Rightarrow> (case y of NaN \<Rightarrow> False | Num b \<Rightarrow> a = b))"

definition Math_abs :: "jsnum \<Rightarrow> jsnum" where
  "Math_abs x = (case x of NaN \<Rightarrow> NaN | Num a \<Rightarrow> Num \<bar>a\<bar>)"

text \<open>\<open>Math.floor(x / c)\<close> for an integer \<open>x\<close> and a positive integer \<open>c\<close>.\<close>

definition Math_floor_div :: "jsnum \<Rightarrow> int \<Rightarrow> jsnum" where
  "Math_floor_div x c = (case x of NaN \<Rightarrow> NaN | Num a \<Rightarrow> Num (a div c))"

function digitsOf :: "nat \<Rightarrow> jsstring" where
  "digitsOf n = (if n < 10 then [of_nat (48 + n)]
                 else digitsOf (n div 10) @ [of_nat (48 + n mod 10)])"
  by pat_completeness auto
termination
  by (relation "measure id") auto

declare digitsOf.simps [simp del]

text \<open>\<open>String(n)\<close>: decimal digits, a minus sign for a negative number, \<open>NaN\<close>.\<close>

definition ToString :: "jsnum \<Rightarrow> jsstring" where
  "ToString x = (case x of NaN \<Rightarrow> js ''NaN''
                 | Num i \<Rightarrow> if i < 0 then js ''-'' @ digitsOf (nat (- i)) else digitsOf (nat i))"

definition padStart :: "jsstring \<Rightarrow> nat \<Rightarrow> jschar \<Rightarrow> jsstring" where
  "padStart s n c = replicate (n - length s) c @ s"

text \<open>The polyfill \<open>String.prototype.padLeft\<close> of the action delegates to \<open>padStart\<close>.\<close>

definition padLeft :: "jsstring \<Rightarrow> nat \<Rightarrow> jschar \<Rightarrow> jsstring" where
  "padLeft s n c = padStart s n c"

definition join :: "jsstring \<Rightarrow> jsstring list \<Rightarrow> jsstring" where
  "join sep xs = (case xs of [] \<Rightarrow> [] | y # ys \<Rightarrow> y @ concat (map (\<lambda>z. sep @ z) ys))"

text \<open>Truthiness of an optional string: \<open>undefined\<close> and the empty string are falsy.\<close>

definition truthy :: "jsstring option \<Rightarrow> bool" where
  "truthy s = (case s of None \<Rightarrow> False | Some v \<Rightarrow> v \<noteq> [])"

definition slice :: "jsstring \<Rightarrow> nat \<Rightarrow> nat \<Rightarrow> jsstring" where
  "slice s a b = take (b - a) (drop a s)"

definition charAt :: "jsstring \<Rightarrow> nat \<Rightarrow> jschar option" where
  "charAt s i = (if i < length s then Some (s ! i) else None)"

definition startsWith :: "jsstring \<Rightarrow> jsstring \<Rightarrow> bool" where
  "startsWith s p = (take (length p) s = p)"

text \<open>\<open>s.split('\n')\<close>: the lines of \<open>s\<close>; the empty string has one (empty) line.\<close>

fun splitLines :: "jsstring \<Rightarrow> jsstring list" where
  "splitLines [] = [[]]"
| "splitLines (c # cs) =
     (if c = 0x0A then [] # splitLines cs
      else (case splitLines cs of [] \<Rightarrow> [[c]] | l # ls \<Rightarrow> (c # l) # ls))"

text \<open>\<open>s.indexOf(c)\<close>, \<open>-1\<close> when \<open>c\<close> does not occur.\<close>

fun indexOfFrom :: "jschar \<Rightarrow> int \<Rightarrow> jsstring \<Rightarrow> int" where
  "indexOfFrom c i [] = - 1"
| "indexOfFrom c i (x # xs) = (if x = c then i else indexOfFrom c (i + 1) xs)"

definition indexOf :: "jsstring \<Rightarrow> jschar \<Rightarrow> int" where
  "indexOf s c = indexOfFrom c 0 s"

subsection \<open>Character classes\<close>

text \<open>\<open>\s\<close>: white space and line terminators, which is also what \<open>trim\<close> removes.\<close>

definition isSpace :: "jschar \<Rightarrow> bool" where
  "isSpace c = (c = 0x09 \<or> c = 0x0A \<or> c = 0x0B \<or> c = 0x0C \<or> c = 0x0D \<or> c = 0x20 \<or> c = 0xA0
      \<or> c = 0x1680 \<or> (0x2000 \<le> c \<and> c \<le> 0x200A) \<or> c = 0x2028 \<or> c = 0x2029 \<or> c = 0x202F
      \<or> c = 0x205F \<or> c = 0x3000 \<or> c = 0xFEFF)"

definition isDigit :: "jschar \<Rightarrow> bool" where
  "isDigit c = (0x30 \<le> c \<and> c \<le> 0x39)"

text \<open>\<open>\w\<close>: ASCII letters, digits and the underscore.\<close>

definition isWord :: "jschar \<Rightarrow> bool" where
  "isWord c = ((0x41 \<le> c \<and> c \<le> 0x5A) \<or> (0x61 \<le> c \<and> c \<le> 0x7A) \<or> isDigit c \<or> c = 0x5F)"

definition anyChar :: "jschar \<Rightarrow> bool" where
  "anyChar c = True"

definition oneOf :: "string \<Rightarrow> jschar \<Rightarrow> bool" where
  "oneOf s c = (c \<in> set (js s))"

definition noneOf :: "string \<Rightarrow> jschar \<Rightarrow> bool" where
  "noneOf s c = (c \<notin> set (js s))"

definition trimStart :: "jsstring \<Rightarrow> jsstring" where
  "trimStart s = dropWhile isSpace s"

definition trim :: "jsstring \<Rightarrow> jsstring" where
  "trim s = rev (dropWhile isSpace (rev (dropWhile isSpace s)))"

subsection \<open>Regular expressions\<close>

text \<open>
  The regular expressions of the action are terms of type \<open>re\<close>, and \<open>rmatch\<close> is the
  backtracking matcher of the language standard in continuation-passing form: \<open>rmatch e k r c\<close>
  matches \<open>e\<close> at the front of the remaining input \<open>r\<close> with captures \<open>c\<close> and hands the
  rest of the input to the continuation \<open>k\<close>; the first alternative that makes the
  continuation succeed wins.  \<open>Star\<close> is the greedy \<open>*\<close>, \<open>Lazy\<close> the non-greedy \<open>*?\<close>;
  as in the standard, an iteration that consumes nothing is rejected.  An iteration
  consumes at least one code unit, so \<open>length r\<close> bounds the number of iterations, and the
  counter of \<open>greedy\<close> and \<open>lazy\<close> (which makes them primitive recursive) starts there;
  lemma \<open>star_fuel\<close> shows that a larger counter gives the same result.
\<close>

datatype re =
    Eps
  | Sym "jschar \<Rightarrow> bool"
  | Seq re re
  | Alt re re
  | Star re
  | Lazy re
  | Group nat re
  | Eos

type_synonym caps = "nat \<Rightarrow> jsstring option"
type_synonym cont = "jsstring \<Rightarrow> caps \<Rightarrow> (jsstring \<times> caps) option"

primrec greedy :: "(cont \<Rightarrow> cont) \<Rightarrow> nat \<Rightarrow> cont \<Rightarrow> cont" where
  "greedy f 0 k r c = k r c"
| "greedy f (Suc n) k r c =
     (case f (\<lambda>r' c'. if length r' < length r then greedy f n k r' c' else None) r c of
        Some x \<Rightarrow> Some x
      | None \<Rightarrow> k r c)"

primrec lazy :: "(cont \<Rightarrow> cont) \<Rightarrow> nat \<Rightarrow> cont \<Rightarrow> cont" where
  "lazy f 0 k r c = k r c"
| "lazy f (Suc n) k r c =
     (case k r c of
        Some x \<Rightarrow> Some x
      | None \<Rightarrow> f (\<lambda>r' c'. if length r' < length r then lazy f n k r' c' else None) r c)"

primrec rmatch :: "re \<Rightarrow> cont \<Rightarrow> cont" where
  "rmatch Eps k r c = k r c"
| "rmatch (Sym P) k r c = (case r of [] \<Rightarrow> None | x # xs \<Rightarrow> if P x then k xs c else None)"
| "rmatch (Seq a b) k r c = rmatch a (rmatch b k) r c"
| "rmatch (Alt a b) k r c = (case rmatch a k r c of Some x \<Rightarrow> Some x | None \<Rightarrow> rmatch b k r c)"
| "rmatch (Star a) k r c = greedy (rmatch a) (length r) k r c"
| "rmatch (Lazy a) k r c = lazy (rmatch a) (length r) k r c"
| "rmatch (Group i a) k r c =
     rmatch a (\<lambda>r' c'. k r' (c'(i := Some (take (length r - length r') r)))) r c"
| "rmatch Eos k r c = (if r = [] then k r c else None)"

text \<open>Derived forms: a literal string, \<open>e+\<close>, \<open>e?\<close>, a sequence, a choice of literals.\<close>

definition seqs :: "re list \<Rightarrow> re" where
  "seqs es = foldr Seq es Eps"

definition lit :: "string \<Rightarrow> re" where
  "lit s = seqs (map (\<lambda>ch. Sym (\<lambda>x. x = ch)) (js s))"

definition plus :: "re \<Rightarrow> re" where
  "plus e = Seq e (Star e)"

definition opt :: "re \<Rightarrow> re" where
  "opt e = Alt e Eps"

fun alts :: "re list \<Rightarrow> re" where
  "alts [] = Eps"
| "alts [e] = e"
| "alts (e # es) = Alt e (alts es)"

text \<open>
  A successful match: its start index, the matched text (\<open>match[0]\<close>) and the capture
  groups (\<open>match[1]\<close>, \<open>match[2]\<close>; \<open>None\<close> for a group that did not take part).
\<close>

record RegExpMatch =
  m_index :: nat
  m_0 :: jsstring
  m_group :: caps

text \<open>
  \<open>match[i]\<close> read as a string.  A group that took no part in the match reads as
  \<open>undefined\<close>; in the patterns whose groups are read with \<open>grp\<close> the group always takes
  part.
\<close>

definition grp :: "RegExpMatch \<Rightarrow> nat \<Rightarrow> jsstring" where
  "grp mt i = (case m_group mt i of None \<Rightarrow> js ''undefined'' | Some v \<Rightarrow> v)"

text \<open>A match at the front of \<open>r\<close> only: a pattern that starts with \<open>^\<close>.\<close>

definition matchAt :: "re \<Rightarrow> nat \<Rightarrow> jsstring \<Rightarrow> RegExpMatch option" where
  "matchAt e i r =
     (case rmatch e (\<lambda>r' c. Some (r', c)) r (\<lambda>_. None) of
        None \<Rightarrow> None
      | Some (r', c) \<Rightarrow> Some \<lparr>m_index = i, m_0 = take (length r - length r') r, m_group = c\<rparr>)"

text \<open>The leftmost match at or after the front of the input, whose index is \<open>i\<close>.\<close>

fun searchFrom :: "re \<Rightarrow> nat \<Rightarrow> jsstring \<Rightarrow> RegExpMatch option" where
  "searchFrom e i [] = matchAt e i []"
| "searchFrom e i (x # xs) =
     (case matchAt e i (x # xs) of Some mt \<Rightarrow> Some mt | None \<Rightarrow> searchFrom e (i + 1) xs)"

text \<open>\<open>s.match(e)\<close> for a pattern without flags.\<close>

definition match :: "jsstring \<Rightarrow> re \<Rightarrow> RegExpMatch option" where
  "match s e = searchFrom e 0 s"

text \<open>\<open>e.exec(s)\<close> for a global pattern whose \<open>lastIndex\<close> is \<open>lastIndex\<close>.\<close>

definition exec :: "re \<Rightarrow> jsstring \<Rightarrow> nat \<Rightarrow> RegExpMatch option" where
  "exec e s lastIndex =
     (if lastIndex > length s then None else searchFrom e lastIndex (drop lastIndex s))"

text \<open>
  The replacement text of \<open>replace\<close> for a pattern without capture groups: \<open>$$\<close> is a
  dollar sign, \<open>$&\<close> the matched text, \<open>$`\<close> the text before the match and \<open>$'\<close> the text
  after it; any other dollar sign stands for itself.
\<close>

fun getSubstitution :: "jsstring \<Rightarrow> jsstring \<Rightarrow> jsstring \<Rightarrow> jsstring \<Rightarrow> jsstring" where
  "getSubstitution matched preceding following (c # d # rest) =
     (if c = 0x24 \<and> d = 0x24 then 0x24 # getSubstitution matched preceding following rest
      else if c = 0x24 \<and> d = 0x26 then matched @ getSubstitution matched preceding following rest
      else if c = 0x24 \<and> d = 0x60 then preceding @ getSubstitution matched preceding following rest
      else if c = 0x24 \<and> d = 0x27 then following @ getSubstitution matched preceding following rest
      else c # getSubstitution matched preceding following (d # rest))"
| "getSubstitution matched preceding following rest = rest"

text \<open>
  \<open>s.replace(e, replacement)\<close> for a global pattern: every match, from left to right,
  none overlapping; after an empty match the scan moves on by one code unit.
\<close>

function replaceLoop :: "re \<Rightarrow> jsstring \<Rightarrow> jsstring \<Rightarrow> jsstring \<Rightarrow> jsstring" where
  "replaceLoop e replacement preceding [] =
     (case matchAt e 0 [] of None \<Rightarrow> [] | Some mt \<Rightarrow> getSubstitution [] preceding [] replacement)"
| "replaceLoop e replacement preceding (x # xs) =
     (case matchAt e 0 (x # xs) of
        None \<Rightarrow> x # replaceLoop e replacement (preceding @ [x]) xs
      | Some mt \<Rightarrow>
          (if m_0 mt = []
           then getSubstitution [] preceding (x # xs) replacement
                  @ x # replaceLoop e replacement (preceding @ [x]) xs
           else getSubstitution (m_0 mt) preceding (drop (length (m_0 mt)) (x # xs)) replacement
                  @ replaceLoop e replacement (preceding @ m_0 mt) (drop (length (m_0 mt)) (x # xs))))"
  by pat_completeness auto
termination
  by (relation "measure (\<lambda>(e, replacement, preceding, r). length r)") auto

definition replaceAll :: "jsstring \<Rightarrow> re \<Rightarrow> jsstring \<Rightarrow> jsstring" where
  "replaceAll s e replacement = replaceLoop e replacement [] s"

section \<open>Dates\<close>

text \<open>
  A \<open>Date\<close> is its time value: milliseconds since the epoch, or \<open>NaN\<close> for an invalid
  date.  The calendar functions are those of the language standard (proleptic Gregorian
  calendar).  The local time zone is taken to be UTC, as on the hosted runners the action
  is written for, so local time and time value coincide.
\<close>

type_synonym Date = jsnum

definition msPerDay :: int where
  "msPerDay = 86400000"

definition Day :: "int \<Rightarrow> int" where
  "Day t = t div msPerDay"

definition DaysInYear :: "int \<Rightarrow> int" where
  "DaysInYear y = (if y mod 4 \<noteq> 0 then 365 else if y mod 100 \<noteq> 0 then 366
                   else if y mod 400 \<noteq> 0 then 365 else 366)"

definition DayFromYear :: "int \<Rightarrow> int" where
  "DayFromYear y = 365 * (y - 1970) + (y - 1969) div 4 - (y - 1901) div 100 + (y - 1601) div 400"

text \<open>
  \<open>YearFromTime t\<close> is the largest year whose first day is not after \<open>t\<close>.  It is
  computed from the estimate \<open>1970 + 400 * Day t div 146097\<close>, which is off by at most one
  (lemma \<open>YearFromTime_bounds\<close>).
\<close>

definition YearFromDay :: "int \<Rightarrow> int" where
  "YearFromDay d = (let y = 1970 + (400 * d) div 146097
                    in if d < DayFromYear y then y - 1
                       else if DayFromYear (y + 1) \<le> d then y + 1 else y)"

definition YearFromTime :: "int \<Rightarrow> int" where
  "YearFromTime t = YearFromDay (Day t)"

definition InLeapYear :: "int \<Rightarrow> int" where
  "InLeapYear t = (if DaysInYear (YearFromTime t) = 366 then 1 else 0)"

definition DayWithinYear :: "int \<Rightarrow> int" where
  "DayWithinYear t = Day t - DayFromYear (YearFromTime t)"

definition MonthFromTime :: "int \<Rightarrow> int" where
  "MonthFromTime t =
     (let d = DayWithinYear t; l = InLeapYear t
      in if d < 31 then 0 else if d < 59 + l then 1 else if d < 90 + l then 2
         else if d < 120 + l then 3 else if d < 151 + l then 4 else if d < 181 + l then 5
         else if d < 212 + l then 6 else if d < 243 + l then 7 else if d < 273 + l then 8
         else if d < 304 + l then 9 else if d < 334 + l then 10 else 11)"

definition DateFromTime :: "int \<Rightarrow> int" where
  "DateFromTime t =
     (let d = DayWithinYear t; l = InLeapYear t; m = MonthFromTime t
      in if m = 0 then d + 1 else if m = 1 then d - 30 else if m = 2 then d - 58 - l
         else if m = 3 then d - 89 - l else if m = 4 then d - 119 - l
         else if m = 5 then d - 150 - l else if m = 6 then d - 180 - l
         else if m = 7 then d - 211 - l else if m = 8 then d - 242 - l
         else if m = 9 then d - 272 - l else if m = 10 then d - 303 - l else d - 333 - l)"

text \<open>Day number, within its year, of the first day of month \<open>mn\<close> (0-based).\<close>

definition monthStart :: "int \<Rightarrow> int \<Rightarrow> int" where
  "monthStart mn l =
     (if mn = 0 then 0 else if mn = 1 then 31 else if mn = 2 then 59 + l
      else if mn = 3 then 90 + l else if mn = 4 then 120 + l else if mn = 5 then 151 + l
      else if mn = 6 then 181 + l else if mn = 7 then 212 + l else if mn = 8 then 243 + l
      else if mn = 9 then 273 + l else if mn = 10 then 304 + l else 334 + l)"

definition MakeDay :: "int \<Rightarrow> int \<Rightarrow> int \<Rightarrow> int" where
  "MakeDay yr mo dt =
     (let ym = yr + mo div 12; mn = mo mod 12
      in DayFromYear ym + monthStart mn (if DaysInYear ym = 366 then 1 else 0) + dt - 1)"

definition MakeDate :: "int \<Rightarrow> int \<Rightarrow> int" where
  "MakeDate dy tm = dy * msPerDay + tm"

definition TimeClip :: "int \<Rightarrow> jsnum" where
  "TimeClip t = (if \<bar>t\<bar> > 8640000000000000 then NaN else Num t)"

definition LocalTime :: "int \<Rightarrow> int" where
  "LocalTime t = t"

definition UTC :: "int \<Rightarrow> int" where
  "UTC t = t"

text \<open>\<open>new Date(year, monthIndex, day)\<close>: a year from 0 to 99 means 1900 + year.\<close>

definition newDate :: "jsnum \<Rightarrow> jsnum \<Rightarrow> jsnum \<Rightarrow> Date" where
  "newDate y m dt =
     (case y of NaN \<Rightarrow> NaN | Num yv \<Rightarrow>
      (case m of NaN \<Rightarrow> NaN | Num mv \<Rightarrow>
       (case dt of NaN \<Rightarrow> NaN | Num dv \<Rightarrow>
          TimeClip (UTC (MakeDate (MakeDay (if 0 \<le> yv \<and> yv \<le> 99 then 1900 + yv else yv) mv dv) 0)))))"

definition getTime :: "Date \<Rightarrow> jsnum" where
  "getTime d = d"

definition getFullYear :: "Date \<Rightarrow> jsnum" where
  "getFullYear d = (case d of NaN \<Rightarrow> NaN | Num t \<Rightarrow> Num (YearFromTime (LocalTime t)))"

definition getMonth :: "Date \<Rightarrow> jsnum" where
  "getMonth d = (case d of NaN \<Rightarrow> NaN | Num t \<Rightarrow> Num (MonthFromTime (LocalTime t)))"

definition getDate :: "Date \<Rightarrow> jsnum" where
  "getDate d = (case d of NaN \<Rightarrow> NaN | Num t \<Rightarrow> Num (DateFromTime (LocalTime t)))"

section \<open>Data model of the action\<close>

record DeadlineAnnotation =
  filePath :: jsstring
  lineNumber :: int
  year :: jsnum
  month :: jsnum
  day :: jsnum
  description :: "jsstring option"
  slackMention :: "jsstring option"
  codeBlock :: jsstring
  elementName :: jsstring
  author :: "jsstring option"
  authorEmail :: "jsstring option"
  deadlineDate :: Date

datatype Language = Ja | En

record ActionConfig =
  slackWebhookUrl :: "jsstring option"
  slackBotToken :: "jsstring option"
  slackChannel :: "jsstring option"
  language :: Language
  customTemplate :: "jsstring option"
  repository :: jsstring
  defaultBranch :: jsstring
  scanDirectory :: jsstring
  notifyDaysBefore :: jsnum
  notifyPastDeadlines :: bool
  githubToSlackMap :: "jsstring \<rightharpoonup> jsstring"

section \<open>Date window filter (slack.ts)\<close>

definition getDaysDifference :: "Date \<Rightarrow> Date \<Rightarrow> jsnum" where
  "getDaysDifference deadline today =
     (let deadlineTime = getTime (newDate (getFullYear deadline) (getMonth deadline) (getDate deadline));
          todayTime = getTime (newDate (getFullYear today) (getMonth today) (getDate today))
      in Math_floor_div (num_sub deadlineTime todayTime) (1000 * 60 * 60 * 24))"

text \<open>The callback that \<open>filterAnnotationsByDate\<close> passes to \<open>Array.filter\<close>.\<close>

definition filterPredicate :: "ActionConfig \<Rightarrow> Date \<Rightarrow> DeadlineAnnotation \<Rightarrow> bool" where
  "filterPredicate config today annotation =
     (let daysDiff = getDaysDifference (deadlineDate annotation) today
      in if num_ge daysDiff (Num 0) \<and> num_le daysDiff (notifyDaysBefore config) then True
         else if num_lt daysDiff (Num 0) \<and> notifyPastDeadlines config then True
         else False)"

definition filterAnnotationsByDate ::
  "DeadlineAnnotation list \<Rightarrow> ActionConfig \<Rightarrow> Date \<Rightarrow> DeadlineAnnotation list" where
  "filterAnnotationsByDate annotations config today =
     filter (filterPredicate config today) annotations"

section \<open>Annotation scanner (parser.ts)\<close>

text \<open>\<open>/@Deadline\s*\(\s*([\s\S]*?)\s*\)/g\<close>\<close>

definition DEADLINE_PATTERN :: re where
  "DEADLINE_PATTERN =
     seqs [lit ''@Deadline'', Star (Sym isSpace), lit ''('', Star (Sym isSpace),
           Group 1 (Lazy (Sym anyChar)), Star (Sym isSpace), lit '')'']"

text \<open>
  The three patterns of \<open>parseNamedParameter\<close>, in the order they are tried:
  \<open>name\s*:\s*'([^']*)'\<close>, \<open>name\s*:\s*"([^"]*)"\<close> and \<open>name\s*:\s*(\d+)\<close>.
  The single quote is the code unit \<open>0x27\<close>, the double quote \<open>0x22\<close>.
\<close>

definition paramPatterns :: "string \<Rightarrow> re list" where
  "paramPatterns paramName =
     [seqs [lit paramName, Star (Sym isSpace), lit '':'', Star (Sym isSpace),
            Sym (\<lambda>x. x = 0x27), Group 1 (Star (Sym (\<lambda>x. x \<noteq> 0x27))), Sym (\<lambda>x. x = 0x27)],
      seqs [lit paramName, Star (Sym isSpace), lit '':'', Star (Sym isSpace),
            Sym (\<lambda>x. x = 0x22), Group 1 (Star (Sym (\<lambda>x. x \<noteq> 0x22))), Sym (\<lambda>x. x = 0x22)],
      seqs [lit paramName, Star (Sym isSpace), lit '':'', Star (Sym isSpace),
            Group 1 (plus (Sym isDigit))]]"

fun firstMatch :: "jsstring \<Rightarrow> re list \<Rightarrow> jsstring option" where
  "firstMatch content [] = None"
| "firstMatch content (pattern # patterns) =
     (case match content pattern of
        Some mt \<Rightarrow> Some (grp mt 1)
      | None \<Rightarrow> firstMatch content patterns)"

definition parseNamedParameter :: "jsstring \<Rightarrow> string \<Rightarrow> jsstring option" where
  "parseNamedParameter content paramName = firstMatch content (paramPatterns paramName)"

fun bracesLoop :: "jsstring \<Rightarrow> int \<Rightarrow> bool \<Rightarrow> jsstring \<Rightarrow> jsstring" where
  "bracesLoop [] depth started result = result"
| "bracesLoop (char # rest) depth started result =
     (if char = 0x7B then bracesLoop rest (depth + 1) True (result @ [char])
      else if char = 0x7D then
        (if started \<and> depth - 1 = 0 then result @ [char]
         else bracesLoop rest (depth - 1) started (result @ [char]))
      else bracesLoop rest depth started (result @ [char]))"

definition extractBalancedBraces :: "jsstring \<Rightarrow> nat \<Rightarrow> jsstring" where
  "extractBalancedBraces content startIndex = bracesLoop (drop startIndex content) 0 False []"

definition truncateCodeBlock :: "jsstring \<Rightarrow> nat \<Rightarrow> jsstring" where
  "truncateCodeBlock code maxLines =
     (let lines = splitLines code
      in if length lines > maxLines
         then join [0x0A] (take maxLines lines) @ [0x0A] @ js ''  // ... (truncated)''
         else code)"

text \<open>The default value of \<open>maxLines\<close>.\<close>

definition maxLinesDefault :: nat where
  "maxLinesDefault = 15"

text \<open>The patterns of \<open>extractCodeBlock\<close>, each anchored at the start of the text.\<close>

definition wordChars :: "jschar \<Rightarrow> bool" where
  "wordChars c = (isWord c \<or> oneOf ''<>,'' c \<or> isSpace c)"

text \<open>\<open>/^[\s\n]*/\<close>\<close>

definition whitespaceRe :: re where
  "whitespaceRe = Star (Sym isSpace)"

text \<open>\<open>/^((?:abstract\s+)?class\s+(\w+)[^{]*\{)/\<close>\<close>

definition classRe :: re where
  "classRe = Group 1 (seqs [opt (seqs [lit ''abstract'', plus (Sym isSpace)]), lit ''class'',
       plus (Sym isSpace), Group 2 (plus (Sym isWord)), Star (Sym (noneOf ''{'')), lit ''{''])"

text \<open>\<open>/^(mixin\s+(\w+)[^{]*\{)/\<close>\<close>

definition mixinRe :: re where
  "mixinRe = Group 1 (seqs [lit ''mixin'', plus (Sym isSpace), Group 2 (plus (Sym isWord)),
       Star (Sym (noneOf ''{'')), lit ''{''])"

text \<open>\<open>/^(extension\s+(\w+)?[^{]*\{)/\<close>\<close>

definition extensionRe :: re where
  "extensionRe = Group 1 (seqs [lit ''extension'', plus (Sym isSpace),
       opt (Group 2 (plus (Sym isWord))), Star (Sym (noneOf ''{'')), lit ''{''])"

text \<open>\<open>/^(enum\s+(\w+)[^{]*\{)/\<close>\<close>

definition enumRe :: re where
  "enumRe = Group 1 (seqs [lit ''enum'', plus (Sym isSpace), Group 2 (plus (Sym isWord)),
       Star (Sym (noneOf ''{'')), lit ''{''])"

text \<open>
  \<open>/^((?:static\s+)?(?:Future<[^>]+>|Stream<[^>]+>|void|int|double|bool|String|dynamic|var|final|const|[\w<>,\s]+)\s+(?:get\s+)?(\w+)\s*(?:<[^>]+>)?\s*\([^)]*\)[^{;]*)/\<close>
\<close>

definition funcRe :: re where
  "funcRe = Group 1 (seqs [opt (seqs [lit ''static'', plus (Sym isSpace)]),
       alts [seqs [lit ''Future<'', plus (Sym (noneOf ''>'')), lit ''>''],
             seqs [lit ''Stream<'', plus (Sym (noneOf ''>'')), lit ''>''],
             lit ''void'', lit ''int'', lit ''double'', lit ''bool'', lit ''String'',
             lit ''dynamic'', lit ''var'', lit ''final'', lit ''const'',
             plus (Sym wordChars)],
       plus (Sym isSpace), opt (seqs [lit ''get'', plus (Sym isSpace)]),
       Group 2 (plus (Sym isWord)), Star (Sym isSpace),
       opt (seqs [lit ''<'', plus (Sym (noneOf ''>'')), lit ''>'']), Star (Sym isSpace),
       lit ''('', Star (Sym (noneOf '')'')), lit '')'', Star (Sym (noneOf ''{;''))])"

text \<open>\<open>/^((?:static\s+)?[\w<>,\s]+\s+get\s+(\w+))/\<close>\<close>

definition getterRe :: re where
  "getterRe = Group 1 (seqs [opt (seqs [lit ''static'', plus (Sym isSpace)]),
       plus (Sym wordChars), plus (Sym isSpace), lit ''get'', plus (Sym isSpace),
       Group 2 (plus (Sym isWord))])"

text \<open>\<open>/^((?:static\s+)?(?:final\s+|const\s+|var\s+|late\s+)?(?:[\w<>,\s]+\s+)?(\w+)\s*=)/\<close>\<close>

definition varRe :: re where
  "varRe = Group 1 (seqs [opt (seqs [lit ''static'', plus (Sym isSpace)]),
       opt (alts [seqs [lit ''final'', plus (Sym isSpace)], seqs [lit ''const'', plus (Sym isSpace)],
                  seqs [lit ''var'', plus (Sym isSpace)], seqs [lit ''late'', plus (Sym isSpace)]]),
       opt (seqs [plus (Sym wordChars), plus (Sym isSpace)]),
       Group 2 (plus (Sym isWord)), Star (Sym isSpace), lit ''=''])"

text \<open>
  \<open>/(?:class|mixin|extension|enum|void|Future|Stream|int|double|bool|String|dynamic|var|final|const)\s+(\w+)/\<close>
\<close>

definition nameRe :: re where
  "nameRe = seqs [alts [lit ''class'', lit ''mixin'', lit ''extension'', lit ''enum'', lit ''void'',
                        lit ''Future'', lit ''Stream'', lit ''int'', lit ''double'', lit ''bool'',
                        lit ''String'', lit ''dynamic'', lit ''var'', lit ''final'', lit ''const''],
                  plus (Sym isSpace), Group 1 (plus (Sym isWord))]"

text \<open>
  The scan for the end of a variable declaration: \<open>Some (i + 1)\<close> where the loop breaks at
  index \<open>i\<close>, \<open>None\<close> when it runs to the end of the text.
\<close>

fun statementEnd :: "jsstring \<Rightarrow> int \<Rightarrow> nat \<Rightarrow> nat option" where
  "statementEnd [] depth i = None"
| "statementEnd (char # rest) depth i =
     (if char = 0x28 \<or> char = 0x5B \<or> char = 0x7B then statementEnd rest (depth + 1) (i + 1)
      else if char = 0x29 \<or> char = 0x5D \<or> char = 0x7D then statementEnd rest (depth - 1) (i + 1)
      else if char = 0x3B \<and> depth = 0 then Some (i + 1)
      else statementEnd rest depth (i + 1))"

text \<open>The body of a function or getter, which follows its signature.\<close>

definition bodyAfter :: "jsstring \<Rightarrow> jsstring \<Rightarrow> jsstring \<Rightarrow> jsstring" where
  "bodyAfter signature afterSignature otherwise =
     (if startsWith (trimStart afterSignature) (js ''{'')
      then signature @ extractBalancedBraces (trimStart afterSignature) 0
      else if startsWith (trimStart afterSignature) (js ''=>'')
      then (let arrowEnd = indexOf afterSignature 0x3B
            in signature @ slice afterSignature 0 (nat (arrowEnd + 1)))
      else otherwise)"

text \<open>The text that \<open>extractCodeBlock\<close> classifies: what follows the annotation, without
  its leading white space.\<close>

definition codeStartOf :: "jsstring \<Rightarrow> nat \<Rightarrow> jsstring" where
  "codeStartOf content annotationEndIndex =
     (let afterAnnotation = drop annotationEndIndex content;
          startIndex = (case matchAt whitespaceRe 0 afterAnnotation of
                          None \<Rightarrow> 0 | Some whitespaceMatch \<Rightarrow> length (m_0 whitespaceMatch))
      in drop startIndex afterAnnotation)"

definition extractCodeBlock :: "jsstring \<Rightarrow> nat \<Rightarrow> jsstring \<times> jsstring" where
  "extractCodeBlock content annotationEndIndex =
     (let codeStart = codeStartOf content annotationEndIndex
      in case matchAt classRe 0 codeStart of
           Some classMatch \<Rightarrow>
             (truncateCodeBlock (extractBalancedBraces codeStart 0) maxLinesDefault,
              grp classMatch 2)
         | None \<Rightarrow>
      (case matchAt mixinRe 0 codeStart of
           Some mixinMatch \<Rightarrow>
             (truncateCodeBlock (extractBalancedBraces codeStart 0) maxLinesDefault,
              grp mixinMatch 2)
         | None \<Rightarrow>
      (case matchAt extensionRe 0 codeStart of
           Some extensionMatch \<Rightarrow>
             (truncateCodeBlock (extractBalancedBraces codeStart 0) maxLinesDefault,
              if truthy (m_group extensionMatch 2) then grp extensionMatch 2
              else js ''anonymous extension'')
         | None \<Rightarrow>
      (case matchAt enumRe 0 codeStart of
           Some enumMatch \<Rightarrow>
             (truncateCodeBlock (extractBalancedBraces codeStart 0) maxLinesDefault,
              grp enumMatch 2)
         | None \<Rightarrow>
      (case matchAt funcRe 0 codeStart of
           Some funcMatch \<Rightarrow>
             (let afterSignature = drop (length (m_0 funcMatch)) codeStart
              in (truncateCodeBlock
                    (bodyAfter (m_0 funcMatch) afterSignature (m_0 funcMatch @ js '';''))
                    maxLinesDefault,
                  grp funcMatch 2))
         | None \<Rightarrow>
      (case matchAt getterRe 0 codeStart of
           Some getterMatch \<Rightarrow>
             (let afterSignature = drop (length (m_0 getterMatch)) codeStart
              in (truncateCodeBlock (bodyAfter (m_0 getterMatch) afterSignature []) maxLinesDefault,
                  grp getterMatch 2))
         | None \<Rightarrow>
      (case matchAt varRe 0 codeStart of
           Some varMatch \<Rightarrow>
             (let remaining = drop (length (m_0 varMatch)) codeStart;
                  endIndex = length (m_0 varMatch)
                     + (case statementEnd remaining 0 0 of None \<Rightarrow> 0 | Some n \<Rightarrow> n)
              in (truncateCodeBlock (slice codeStart 0 endIndex) maxLinesDefault, grp varMatch 2))
         | None \<Rightarrow>
             (let codeBlock = join [0x0A] (take 5 (splitLines codeStart))
              in (truncateCodeBlock codeBlock maxLinesDefault,
                  case match codeBlock nameRe of
                    Some nameMatch \<Rightarrow> grp nameMatch 1
                  | None \<Rightarrow> js ''unknown'')))))))))"

definition getLineNumber :: "jsstring \<Rightarrow> nat \<Rightarrow> int" where
  "getLineNumber content index = int (length (splitLines (slice content 0 index)))"

text \<open>The first loop of \<open>isInsideComment\<close>: the block-comment state at \<open>index\<close>.\<close>

function blockScan :: "jsstring \<Rightarrow> nat \<Rightarrow> bool \<Rightarrow> nat \<Rightarrow> bool" where
  "blockScan content index inBlockComment i =
     (if i < index then
        (if \<not> inBlockComment \<and> slice content i (i + 2) = js ''/*''
         then blockScan content index True (i + 2)
         else if inBlockComment \<and> slice content i (i + 2) = js ''*/''
         then blockScan content index False (i + 2)
         else blockScan content index inBlockComment (i + 1))
      else inBlockComment)"
  by pat_completeness auto
termination
  by (relation "measure (\<lambda>(content, index, inBlockComment, i). index - i)") auto

declare blockScan.simps [simp del]

text \<open>The second loop: the start of the line that holds \<open>index\<close>.\<close>

function lineStartOf :: "jsstring \<Rightarrow> nat \<Rightarrow> nat" where
  "lineStartOf content lineStart =
     (if lineStart > 0 \<and> charAt content (lineStart - 1) \<noteq> Some 0x0A
      then lineStartOf content (lineStart - 1)
      else lineStart)"
  by pat_completeness auto
termination
  by (relation "measure (\<lambda>(content, lineStart). lineStart)") auto

declare lineStartOf.simps [simp del]

definition isInsideComment :: "jsstring \<Rightarrow> nat \<Rightarrow> bool" where
  "isInsideComment content index =
     (if blockScan content index False 0 then True
      else (let lineStart = lineStartOf content index;
                lineBeforeIndex = slice content lineStart index
            in case match lineBeforeIndex (lit ''//'') of
                 Some singleLineCommentMatch \<Rightarrow> True
               | None \<Rightarrow> False))"

text \<open>
  \<open>parseInt(s, 10)\<close>: leading white space, an optional sign, then the longest run of
  digits; \<open>NaN\<close> when there is no digit.
\<close>

definition digitsValue :: "jsstring \<Rightarrow> int" where
  "digitsValue ds = foldl (\<lambda>a d. 10 * a + (int (unat d) - 48)) 0 ds"

definition parseInt :: "jsstring \<Rightarrow> jsnum" where
  "parseInt s =
     (let t = trimStart s;
          u = (if startsWith t (js ''-'') \<or> startsWith t (js ''+'') then drop 1 t else t);
          ds = takeWhile isDigit u
      in if ds = [] then NaN
         else if startsWith t (js ''-'') then Num (- digitsValue ds) else Num (digitsValue ds))"

record ParseResult =
  pr_filePath :: jsstring
  pr_annotations :: "DeadlineAnnotation list"
  pr_errors :: "jsstring list"

text \<open>The value of an optional string that is known to be present.\<close>

definition str :: "jsstring option \<Rightarrow> jsstring" where
  "str s = (case s of None \<Rightarrow> js ''undefined'' | Some v \<Rightarrow> v)"

text \<open>
  One iteration of the \<open>while\<close> loop of \<open>parseDartFile\<close>, for the match \<open>mt\<close>.  Nothing in
  the body throws, so the \<open>catch\<close> clause of the source has no counterpart.
\<close>

definition loopBody :: "jsstring \<Rightarrow> jsstring \<Rightarrow> RegExpMatch \<Rightarrow> ParseResult \<Rightarrow> ParseResult" where
  "loopBody path content mt result =
     (let annotationContent = grp mt 1;
          annotationIndex = m_index mt;
          annotationEndIndex = annotationIndex + length (m_0 mt)
      in if isInsideComment content annotationIndex then result
         else
           (let yearStr = parseNamedParameter annotationContent ''year'';
                monthStr = parseNamedParameter annotationContent ''month'';
                dayStr = parseNamedParameter annotationContent ''day''
            in if \<not> truthy yearStr \<or> \<not> truthy monthStr \<or> \<not> truthy dayStr
               then result\<lparr>pr_errors := pr_errors result @
                      [js ''Invalid @Deadline at line ''
                         @ ToString (Num (getLineNumber content annotationIndex))
                         @ js '': missing required date parameters'']\<rparr>
               else
                 (let year = parseInt (str yearStr);
                      month = parseInt (str monthStr);
                      day = parseInt (str dayStr)
                  in if isNaN year \<or> isNaN month \<or> isNaN day
                     then result\<lparr>pr_errors := pr_errors result @
                            [js ''Invalid @Deadline at line ''
                               @ ToString (Num (getLineNumber content annotationIndex))
                               @ js '': invalid date values'']\<rparr>
                     else
                       (let description = parseNamedParameter annotationContent ''description'';
                            slackMention = parseNamedParameter annotationContent ''slackMention'';
                            extracted = extractCodeBlock content annotationEndIndex;
                            annotation =
                              \<lparr>filePath = path,
                               lineNumber = getLineNumber content annotationIndex,
                               year = year, month = month, day = day,
                               description = description, slackMention = slackMention,
                               codeBlock = fst extracted, elementName = snd extracted,
                               author = None, authorEmail = None,
                               deadlineDate = newDate year (num_sub month (Num 1)) day\<rparr>
                        in result\<lparr>pr_annotations := pr_annotations result @ [annotation]\<rparr>))))"

text \<open>
  The \<open>while\<close> loop over the matches of \<open>DEADLINE_PATTERN\<close>; \<open>lastIndex\<close> is the state of
  the pattern.  With each match, \<open>exec\<close> sets \<open>lastIndex\<close> to the end of the match.  A match
  that did not move \<open>lastIndex\<close> forward would be found again for ever: that is the
  result \<open>None\<close>, which lemma \<open>parseLoop_total\<close> shows never to arise.
\<close>

function parseLoop :: "jsstring \<Rightarrow> jsstring \<Rightarrow> nat \<Rightarrow> ParseResult \<Rightarrow> ParseResult option" where
  "parseLoop path content lastIndex result =
     (case exec DEADLINE_PATTERN content lastIndex of
        None \<Rightarrow> Some result
      | Some mt \<Rightarrow>
          (if lastIndex < m_index mt + length (m_0 mt)
           then parseLoop path content (m_index mt + length (m_0 mt))
                  (loopBody path content mt result)
           else None))"
  by pat_completeness auto
termination
  by (relation "measure (\<lambda>(filePath, content, lastIndex, result). Suc (length content) - lastIndex)")
     (auto simp: exec_def split: if_splits)

declare parseLoop.simps [simp del]

text \<open>
  \<open>parseDartFile\<close>; \<open>readFileSync\<close> is the file system: the content of the file at a
  path, or the text of the error raised.
\<close>

definition parseDartFile ::
  "(jsstring \<Rightarrow> jsstring + jsstring) \<Rightarrow> jsstring \<Rightarrow> ParseResult option" where
  "parseDartFile readFileSync path =
     (let result = \<lparr>pr_filePath = path, pr_annotations = [], pr_errors = []\<rparr>
      in case readFileSync path of
           Inl error \<Rightarrow> Some (result\<lparr>pr_errors := pr_errors result @ [js ''Failed to read file: '' @ error]\<rparr>)
         | Inr content \<Rightarrow> parseLoop path content 0 result)"

section \<open>Attribution helper (blame.ts)\<close>

text \<open>
  \<open>/^\d+\+([^@]+)@users\.noreply\.github\.com$/\<close> and
  \<open>/^([^@]+)@users\.noreply\.github\.com$/\<close>
\<close>

definition noreplyRe :: re where
  "noreplyRe = seqs [plus (Sym isDigit), lit ''+'', Group 1 (plus (Sym (noneOf ''@''))),
                     lit ''@users.noreply.github.com'', Eos]"

definition oldNoreplyRe :: re where
  "oldNoreplyRe = seqs [Group 1 (plus (Sym (noneOf ''@''))),
                        lit ''@users.noreply.github.com'', Eos]"

definition extractGitHubUsername :: "jsstring \<Rightarrow> jsstring option" where
  "extractGitHubUsername email =
     (case matchAt noreplyRe 0 email of
        Some noreplyMatch \<Rightarrow> Some (grp noreplyMatch 1)
      | None \<Rightarrow>
          (case matchAt oldNoreplyRe 0 email of
             Some oldNoreplyMatch \<Rightarrow> Some (grp oldNoreplyMatch 1)
           | None \<Rightarrow> None))"

section \<open>Notification composer (slack.ts)\<close>

record Messages =
  msg_title :: jsstring
  msg_deadlineReached :: jsstring
  msg_deadlineApproaching :: jsstring
  msg_deadlinePassed :: jsstring
  msg_daysRemaining :: "jsnum \<Rightarrow> jsstring"
  msg_daysOverdue :: "jsnum \<Rightarrow> jsstring"
  msg_file :: jsstring
  msg_line :: jsstring
  msg_element :: jsstring
  msg_deadline :: jsstring
  msg_author :: jsstring
  msg_description :: jsstring
  msg_pleaseRemove :: jsstring
  msg_viewCode :: jsstring
  msg_noDeadlines :: jsstring
  msg_summary :: "jsnum \<Rightarrow> jsstring"

text \<open>The Japanese texts are given by their code units.\<close>

definition MESSAGES :: "Language \<Rightarrow> Messages" where
  "MESSAGES l = (case l of
     Ja \<Rightarrow>
       \<lparr>msg_title = js '':warning: '' @ [0x30C7, 0x30C3, 0x30C9, 0x30E9, 0x30A4, 0x30F3, 0x901A, 0x77E5],
        msg_deadlineReached = [0x30C7, 0x30C3, 0x30C9, 0x30E9, 0x30A4, 0x30F3, 0x306B, 0x9054,
                               0x3057, 0x307E, 0x3057, 0x305F],
        msg_deadlineApproaching = [0x30C7, 0x30C3, 0x30C9, 0x30E9, 0x30A4, 0x30F3, 0x304C, 0x8FD1,
                                   0x3065, 0x3044, 0x3066, 0x3044, 0x307E, 0x3059],
        msg_deadlinePassed = [0x30C7, 0x30C3, 0x30C9, 0x30E9, 0x30A4, 0x30F3, 0x3092, 0x904E,
                              0x304E, 0x3066, 0x3044, 0x307E, 0x3059],
        msg_daysRemaining = (\<lambda>days. [0x6B8B, 0x308A] @ js '' '' @ ToString days @ js '' '' @ [0x65E5]),
        msg_daysOverdue = (\<lambda>days. ToString days @ js '' '' @ [0x65E5, 0x8D85, 0x904E]),
        msg_file = [0x30D5, 0x30A1, 0x30A4, 0x30EB],
        msg_line = [0x884C],
        msg_element = [0x5BFE, 0x8C61],
        msg_deadline = [0x30C7, 0x30C3, 0x30C9, 0x30E9, 0x30A4, 0x30F3],
        msg_author = [0x4F5C, 0x6210, 0x8005],
        msg_description = [0x8AAC, 0x660E],
        msg_pleaseRemove = [0x3053, 0x306E, 0x30B3, 0x30FC, 0x30C9, 0x3092, 0x524A, 0x9664, 0x307E,
                            0x305F, 0x306F, 0x5BFE, 0x5FDC, 0x3057, 0x3066, 0x304F, 0x3060, 0x3055,
                            0x3044],
        msg_viewCode = [0x30B3, 0x30FC, 0x30C9, 0x3092, 0x898B, 0x308B],
        msg_noDeadlines = [0x672C, 0x65E5, 0x5BFE, 0x5FDC, 0x304C, 0x5FC5, 0x8981, 0x306A, 0x30C7,
                           0x30C3, 0x30C9, 0x30E9, 0x30A4, 0x30F3, 0x306F, 0x3042, 0x308A, 0x307E,
                           0x305B, 0x3093],
        msg_summary = (\<lambda>count. ToString count @ js '' '' @
                         [0x4EF6, 0x306E, 0x30C7, 0x30C3, 0x30C9, 0x30E9, 0x30A4, 0x30F3, 0x304C,
                          0x898B, 0x3064, 0x304B, 0x308A, 0x307E, 0x3057, 0x305F])\<rparr>
   | En \<Rightarrow>
       \<lparr>msg_title = js '':warning: Deadline Reminder'',
        msg_deadlineReached = js ''Deadline reached'',
        msg_deadlineApproaching = js ''Deadline approaching'',
        msg_deadlinePassed = js ''Deadline passed'',
        msg_daysRemaining = (\<lambda>days. ToString days @ js '' day(s) remaining''),
        msg_daysOverdue = (\<lambda>days. ToString days @ js '' day(s) overdue''),
        msg_file = js ''File'',
        msg_line = js ''Line'',
        msg_element = js ''Element'',
        msg_deadline = js ''Deadline'',
        msg_author = js ''Author'',
        msg_description = js ''Description'',
        msg_pleaseRemove = js ''Please remove or address this code'',
        msg_viewCode = js ''View Code'',
        msg_noDeadlines = js ''No deadlines require attention today'',
        msg_summary = (\<lambda>count. ToString count @ js '' deadline(s) found'')\<rparr>)"

definition formatDate :: "Date \<Rightarrow> jsstring" where
  "formatDate date =
     (let year = getFullYear date;
          month = padLeft (ToString (num_add (getMonth date) (Num 1))) 2 0x30;
          day = padLeft (ToString (getDate date)) 2 0x30
      in ToString year @ js ''-'' @ month @ js ''-'' @ day)"

text \<open>\<open>filePath.replace(/^\.\//, '')\<close> removes a leading \<open>./\<close>.\<close>

definition getGitHubUrl :: "jsstring \<Rightarrow> jsstring \<Rightarrow> jsstring \<Rightarrow> int \<Rightarrow> jsstring" where
  "getGitHubUrl repo branch path lineNo =
     (let cleanPath = (case matchAt (lit ''./'') 0 path of
                         None \<Rightarrow> path | Some mt \<Rightarrow> drop (length (m_0 mt)) path)
      in js ''https://github.com/'' @ repo @ js ''/blob/'' @ branch @ js ''/'' @ cleanPath
           @ js ''#L'' @ ToString (Num lineNo))"

definition getStatusEmoji :: "jsnum \<Rightarrow> jsstring" where
  "getStatusEmoji daysDiff =
     (if num_lt daysDiff (Num 0) then js '':rotating_light:''
      else if num_eq daysDiff (Num 0) then js '':alarm_clock:''
      else if num_le daysDiff (Num 3) then js '':warning:''
      else js '':calendar:'')"

text \<open>
  \<open>resolveSlackMention\<close>.  The map of the configuration is always an object, so the
  tests \<open>&& config.githubToSlackMap\<close> of the source are true and do not appear.
\<close>

definition resolveSlackMention :: "DeadlineAnnotation \<Rightarrow> ActionConfig \<Rightarrow> jsstring option" where
  "resolveSlackMention annotation config =
     (if truthy (slackMention annotation) then slackMention annotation
      else if truthy (authorEmail annotation)
              \<and> truthy (extractGitHubUsername (str (authorEmail annotation)))
              \<and> truthy (githubToSlackMap config
                           (str (extractGitHubUsername (str (authorEmail annotation)))))
      then Some (js ''<@''
                   @ str (githubToSlackMap config
                            (str (extractGitHubUsername (str (authorEmail annotation)))))
                   @ js ''>'')
      else if truthy (authorEmail annotation)
              \<and> truthy (githubToSlackMap config (str (authorEmail annotation)))
      then Some (js ''<@'' @ str (githubToSlackMap config (str (authorEmail annotation))) @ js ''>'')
      else if truthy (author annotation) \<and> truthy (githubToSlackMap config (str (author annotation)))
      then Some (js ''<@'' @ str (githubToSlackMap config (str (author annotation))) @ js ''>'')
      else None)"

text \<open>
  The blocks the composer builds: a header or a section with a \<open>text\<close> object, a section
  with \<open>fields\<close>, a divider.
\<close>

record TextObject =
  ttype :: jsstring
  ttext :: jsstring
  emoji :: "bool option"

record SlackBlock =
  btype :: jsstring
  btext :: "TextObject option"
  bfields :: "TextObject list option"

record SlackMessage =
  channel :: "jsstring option"
  mtext :: jsstring
  blocks :: "SlackBlock list option"

definition mrkdwn :: "jsstring \<Rightarrow> TextObject" where
  "mrkdwn t = \<lparr>ttype = js ''mrkdwn'', ttext = t, emoji = None\<rparr>"

definition sectionText :: "jsstring \<Rightarrow> SlackBlock" where
  "sectionText t = \<lparr>btype = js ''section'', btext = Some (mrkdwn t), bfields = None\<rparr>"

definition sectionFields :: "jsstring list \<Rightarrow> SlackBlock" where
  "sectionFields ts = \<lparr>btype = js ''section'', btext = None, bfields = Some (map mrkdwn ts)\<rparr>"

definition divider :: SlackBlock where
  "divider = \<lparr>btype = js ''divider'', btext = None, bfields = None\<rparr>"

definition headerBlock :: "jsstring \<Rightarrow> SlackBlock" where
  "headerBlock t =
     \<lparr>btype = js ''header'',
      btext = Some \<lparr>ttype = js ''plain_text'', ttext = t, emoji = Some True\<rparr>,
      bfields = None\<rparr>"

definition buildAnnotationBlocks ::
  "DeadlineAnnotation \<Rightarrow> ActionConfig \<Rightarrow> Date \<Rightarrow> SlackBlock list" where
  "buildAnnotationBlocks annotation config today =
     (let msg = MESSAGES (language config);
          daysDiff = getDaysDifference (deadlineDate annotation) today;
          statusEmoji = getStatusEmoji daysDiff;
          statusText =
            (if num_lt daysDiff (Num 0)
             then msg_deadlinePassed msg @ js '' ('' @ msg_daysOverdue msg (Math_abs daysDiff) @ js '')''
             else if num_eq daysDiff (Num 0) then msg_deadlineReached msg
             else msg_deadlineApproaching msg @ js '' ('' @ msg_daysRemaining msg daysDiff @ js '')'');
          githubUrl = getGitHubUrl (repository config) (defaultBranch config)
                        (filePath annotation) (lineNumber annotation);
          mention = resolveSlackMention annotation config;
          authorLink =
            (if truthy (author annotation)
             then js ''<https://github.com/'' @ str (author annotation) @ js ''|''
                    @ str (author annotation) @ js ''>''
             else js ''Unknown'');
          fileLink = js ''<'' @ githubUrl @ js ''|'' @ filePath annotation @ js ''>''
      in [sectionText (statusEmoji @ js '' *'' @ statusText @ js ''*''
                         @ (if truthy mention then js '' '' @ str mention else [])),
          sectionFields
            [js ''*'' @ msg_element msg @ js '':*'' @ [0x0A] @ elementName annotation,
             js ''*'' @ msg_deadline msg @ js '':*'' @ [0x0A] @ formatDate (deadlineDate annotation)],
          sectionFields
            [js ''*'' @ msg_file msg @ js '':*'' @ [0x0A] @ fileLink @ js '' ('' @ msg_line msg
               @ js '': '' @ ToString (Num (lineNumber annotation)) @ js '')'',
             js ''*'' @ msg_author msg @ js '':*'' @ [0x0A] @ authorLink]]
         @ (if truthy (description annotation)
            then [sectionText (js ''*'' @ msg_description msg @ js '':* ''
                                 @ str (description annotation))]
            else [])
         @ [divider])"

definition MAX_BLOCKS :: nat where
  "MAX_BLOCKS = 30"

text \<open>
  The \<open>for\<close> loop of \<open>buildSlackMessage\<close>: the blocks built so far and the number of
  annotations displayed; the loop ends at the first annotation whose blocks do not fit.
\<close>

fun appendLoop ::
  "DeadlineAnnotation list \<Rightarrow> ActionConfig \<Rightarrow> Date \<Rightarrow> SlackBlock list \<Rightarrow> nat
     \<Rightarrow> SlackBlock list \<times> nat" where
  "appendLoop [] config today collected displayedCount = (collected, displayedCount)"
| "appendLoop (annotation # rest) config today collected displayedCount =
     (let annotationBlocks = buildAnnotationBlocks annotation config today
      in if length collected + length annotationBlocks > MAX_BLOCKS
         then (collected, displayedCount)
         else appendLoop rest config today (collected @ annotationBlocks) (displayedCount + 1))"

text \<open>\<open>/:[^:]+:/g\<close>, which removes the emoji code from the title.\<close>

definition emojiRe :: re where
  "emojiRe = seqs [lit '':'', plus (Sym (noneOf '':'')), lit '':'']"

definition truncationMsg :: "Language \<Rightarrow> nat \<Rightarrow> jsstring" where
  "truncationMsg l remainingCount =
     (if l = Ja
      then js ''...'' @ [0x4ED6] @ js '' '' @ ToString (Num (int remainingCount)) @ js '' ''
             @ [0x4EF6, 0x306E, 0x30C7, 0x30C3, 0x30C9, 0x30E9, 0x30A4, 0x30F3, 0x304C, 0x3042,
                0x308A, 0x307E, 0x3059]
      else js ''...and '' @ ToString (Num (int remainingCount)) @ js '' more deadline(s)'')"

definition buildSlackMessage ::
  "DeadlineAnnotation list \<Rightarrow> ActionConfig \<Rightarrow> Date \<Rightarrow> SlackMessage" where
  "buildSlackMessage annotations config today =
     (let msg = MESSAGES (language config)
      in if length annotations = 0
         then \<lparr>channel = None,
               mtext = msg_noDeadlines msg,
               blocks = Some [sectionText (js '':white_check_mark: '' @ msg_noDeadlines msg)]\<rparr>
         else
           (let initial =
                  [headerBlock (trim (replaceAll (msg_title msg) emojiRe [])),
                   sectionText (msg_summary msg (Num (int (length annotations)))),
                   divider];
                looped = appendLoop annotations config today initial 0;
                displayedCount = snd looped;
                final =
                  (if displayedCount < length annotations
                   then fst looped
                          @ [sectionText (truncationMsg (language config)
                                            (length annotations - displayedCount))]
                   else fst looped)
            in \<lparr>channel = slackChannel config,
                mtext = msg_title msg @ js '' - ''
                          @ msg_summary msg (Num (int (length annotations))),
                blocks = Some final\<rparr>))"

text \<open>\<open>x || fallback\<close> for an optional string.\<close>

definition orElse :: "jsstring option \<Rightarrow> jsstring \<Rightarrow> jsstring" where
  "orElse s fallback = (if truthy s then str s else fallback)"

text \<open>The body of the \<open>for\<close> loop of \<open>buildCustomSlackMessage\<close>: one rendered copy.\<close>

definition renderTemplate ::
  "jsstring \<Rightarrow> DeadlineAnnotation \<Rightarrow> ActionConfig \<Rightarrow> Date \<Rightarrow> jsstring" where
  "renderTemplate template annotation config today =
     (let daysDiff = getDaysDifference (deadlineDate annotation) today;
          githubUrl = getGitHubUrl (repository config) (defaultBranch config)
                        (filePath annotation) (lineNumber annotation);
          mention = resolveSlackMention annotation config;
          t1 = replaceAll template (lit ''{{elementName}}'') (elementName annotation);
          t2 = replaceAll t1 (lit ''{{filePath}}'') (filePath annotation);
          t3 = replaceAll t2 (lit ''{{lineNumber}}'') (ToString (Num (lineNumber annotation)));
          t4 = replaceAll t3 (lit ''{{deadline}}'') (formatDate (deadlineDate annotation));
          t5 = replaceAll t4 (lit ''{{author}}'') (orElse (author annotation) (js ''Unknown''));
          t6 = replaceAll t5 (lit ''{{description}}'') (orElse (description annotation) []);
          t7 = replaceAll t6 (lit ''{{codeBlock}}'') (codeBlock annotation);
          t8 = replaceAll t7 (lit ''{{githubUrl}}'') githubUrl;
          t9 = replaceAll t8 (lit ''{{daysDiff}}'') (ToString daysDiff);
          t10 = replaceAll t9 (lit ''{{mention}}'') (orElse mention [])
      in replaceAll t10 (lit ''{{slackMention}}'') (orElse (slackMention annotation) []))"

text \<open>
  \<open>buildCustomSlackMessage\<close>.  No operation of the \<open>try\<close> block throws on values of
  these types, so the \<open>catch\<close> clause of the source is never entered and has no
  counterpart here.
\<close>

definition buildCustomSlackMessage ::
  "DeadlineAnnotation list \<Rightarrow> ActionConfig \<Rightarrow> Date \<Rightarrow> SlackMessage" where
  "buildCustomSlackMessage annotations config today =
     (if \<not> truthy (customTemplate config) then buildSlackMessage annotations config today
      else
        (let template0 = str (customTemplate config);
             template1 = replaceAll template0 (lit ''{{count}}'')
                           (ToString (Num (int (length annotations))));
             template = replaceAll template1 (lit ''{{date}}'') (formatDate today);
             messages = map (\<lambda>annotation. renderTemplate template annotation config today)
                          annotations
         in \<lparr>channel = slackChannel config,
             mtext = join [0x0A, 0x0A] messages,
             blocks = None\<rparr>))"

section \<open>Reference notions\<close>



text \<open>
  The successive matches that the loop of \<open>parseDartFile\<close> obtains from \<open>exec\<close>: the
  annotation occurrences of a document, in order.
\<close>

function matchesFrom :: "jsstring \<Rightarrow> nat \<Rightarrow> RegExpMatch list" where
  "matchesFrom content lastIndex =
     (case exec DEADLINE_PATTERN content lastIndex of
        None \<Rightarrow> []
      | Some mt \<Rightarrow>
          (if lastIndex < m_index mt + length (m_0 mt)
           then mt # matchesFrom content (m_index mt + length (m_0 mt))
           else []))"
  by pat_completeness auto

termination
  by (relation "measure (\<lambda>(content, lastIndex). Suc (length content) - lastIndex)")
     (auto simp: exec_def split: if_splits)

declare matchesFrom.simps [simp del]

text \<open>
  What one iteration of the loop adds to an empty result: the records and the errors of
  one occurrence.
\<close>

definition emptyResult :: "jsstring \<Rightarrow> ParseResult" where
  "emptyResult path = \<lparr>pr_filePath = path, pr_annotations = [], pr_errors = []\<rparr>"

definition recordsOf :: "jsstring \<Rightarrow> jsstring \<Rightarrow> RegExpMatch \<Rightarrow> DeadlineAnnotation list" where
  "recordsOf path content mt = pr_annotations (loopBody path content mt (emptyResult path))"

definition errorsOf :: "jsstring \<Rightarrow> jsstring \<Rightarrow> RegExpMatch \<Rightarrow> jsstring list" where
  "errorsOf path content mt = pr_errors (loopBody path content mt (emptyResult path))"














subsection \<open>Example inputs\<close>

definition exampleAnnotation :: "int \<Rightarrow> int \<Rightarrow> int \<Rightarrow> DeadlineAnnotation" where
  "exampleAnnotation y m d =
     \<lparr>filePath = js ''lib/main.dart'', lineNumber = 3, year = Num y, month = Num m, day = Num d,
      description = None, slackMention = None, codeBlock = js ''void f() {}'',
      elementName = js ''f'', author = None, authorEmail = None,
      deadlineDate = newDate (Num y) (Num (m - 1)) (Num d)\<rparr>"

definition exampleConfig :: ActionConfig where
  "exampleConfig =
     \<lparr>slackWebhookUrl = None, slackBotToken = None, slackChannel = Some (js ''#dev''),
      language = En, customTemplate = None, repository = js ''acme/app'',
      defaultBranch = js ''main'', scanDirectory = js ''.'', notifyDaysBefore = Num 0,
      notifyPastDeadlines = False, githubToSlackMap = Map.empty\<rparr>"

definition exampleToday :: Date where
  "exampleToday = newDate (Num 2024) (Num 2) (Num 5)"

definition commentedDoc :: jsstring where
  "commentedDoc = js ''/* old'' @ [0x0A] @ js ''@Deadline(year: 2024,'' @ [0x0A]
     @ js '' month: 1, day: 2)'' @ [0x0A] @ js ''void f() {}'' @ [0x0A] @ js ''*/'' @ [0x0A]
     @ js ''// @Deadline(year: 2025, month: 3, day: 1)'' @ [0x0A]"






section \<open>Calendar arithmetic\<close>

























section \<open>Formatting of the derived date\<close>




section \<open>Date window filter\<close>



lemma example_distinct:
  "exampleAnnotation 2024 3 5 \<noteq> exampleAnnotation 2024 3 6"
  "exampleAnnotation 2024 3 5 \<noteq> exampleAnnotation 2024 3 4"
  "exampleAnnotation 2024 3 5 \<noteq> exampleAnnotation 2024 2 4"
  by (simp_all add: exampleAnnotation_def)


text \<open>
  C10.  The result of \<open>filterAnnotationsByDate\<close> is a subsequence of its input: the
  records it returns are input records, unchanged, in their input order, and none occurs
  more often than in the input.
\<close>

theorem filterAnnotationsByDate_subseq:
  "subseq (filterAnnotationsByDate annotations config today) annotations
   \<and> set (filterAnnotationsByDate annotations config today) \<subseteq> set annotations
   \<and> length (filterAnnotationsByDate annotations config today) \<le> length annotations
   \<and> count_list (filterAnnotationsByDate annotations config today) a \<le> count_list annotations a"
proof -
  have "count_list (filter P xs) a \<le> count_list xs a" for P and xs :: "DeadlineAnnotation list"
    by (induction xs) auto
  then show ?thesis
    by (simp add: filterAnnotationsByDate_def)
qed

section \<open>Evaluation of the patterns\<close>

lemmas rx_eval = matchAt_def seqs_def lit_def plus_def opt_def js_def noneOf_def oneOf_def
  isSpace_def isDigit_def isWord_def anyChar_def grp_def



section \<open>The matcher hands suffixes of its input to its continuation\<close>

lemma greedy_cont:
  assumes f: "\<And>k r c res. f k r c = Some res \<Longrightarrow> \<exists>r' c'. suffix r' r \<and> k r' c' = Some res"
  shows "greedy f n k r c = Some res \<Longrightarrow> \<exists>r' c'. suffix r' r \<and> k r' c' = Some res"
proof (induction n arbitrary: r c)
  case 0
  then show ?case by auto
next
  case (Suc n)
  show ?case
  proof (cases "f (\<lambda>r' c'. if length r' < length r then greedy f n k r' c' else None) r c")
    case None
    with Suc.prems have "k r c = Some res" by simp
    then show ?thesis by auto
  next
    case (Some x)
    with Suc.prems have x: "x = res" by simp
    from f [OF Some] obtain r1 c1 where r1: "suffix r1 r"
      "(if length r1 < length r then greedy f n k r1 c1 else None) = Some x"
      by blast
    then have "greedy f n k r1 c1 = Some res" using x by (simp split: if_splits)
    from Suc.IH [OF this] obtain r2 c2 where "suffix r2 r1" "k r2 c2 = Some res" by blast
    with r1(1) show ?thesis using suffix_order.trans by blast
  qed
qed

lemma lazy_cont:
  assumes f: "\<And>k r c res. f k r c = Some res \<Longrightarrow> \<exists>r' c'. suffix r' r \<and> k r' c' = Some res"
  shows "lazy f n k r c = Some res \<Longrightarrow> \<exists>r' c'. suffix r' r \<and> k r' c' = Some res"
proof (induction n arbitrary: r c)
  case 0
  then show ?case by auto
next
  case (Suc n)
  show ?case
  proof (cases "k r c")
    case (Some x)
    with Suc.prems have "k r c = Some res" by simp
    then show ?thesis by auto
  next
    case None
    with Suc.prems have
      "f (\<lambda>r' c'. if length r' < length r then lazy f n k r' c' else None) r c = Some res"
      by simp
    from f [OF this] obtain r1 c1 where r1: "suffix r1 r"
      "(if length r1 < length r then lazy f n k r1 c1 else None) = Some res"
      by blast
    then have "lazy f n k r1 c1 = Some res" by (simp split: if_splits)
    from Suc.IH [OF this] obtain r2 c2 where "suffix r2 r1" "k r2 c2 = Some res" by blast
    with r1(1) show ?thesis using suffix_order.trans by blast
  qed
qed

lemma rmatch_cont:
  "rmatch e k r c = Some res \<Longrightarrow> \<exists>r' c'. suffix r' r \<and> k r' c' = Some res"
proof (induction e arbitrary: k r c res)
  case Eps
  then show ?case by auto
next
  case (Sym P)
  then show ?case by (cases r) (auto split: if_splits simp: suffix_Cons)
next
  case (Seq a b)
  from Seq.prems have "rmatch a (rmatch b k) r c = Some res" by simp
  from Seq.IH(1) [OF this] obtain r1 c1 where r1: "suffix r1 r" "rmatch b k r1 c1 = Some res"
    by blast
  from Seq.IH(2) [OF r1(2)] obtain r2 c2 where "suffix r2 r1" "k r2 c2 = Some res" by blast
  with r1(1) show ?case using suffix_order.trans by blast
next
  case (Alt a b)
  then show ?case by (auto split: option.splits)
next
  case (Star a)
  from Star.prems have "greedy (rmatch a) (length r) k r c = Some res" by simp
  then show ?case by (rule greedy_cont [rotated]) (rule Star.IH)
next
  case (Lazy a)
  from Lazy.prems have "lazy (rmatch a) (length r) k r c = Some res" by simp
  then show ?case by (rule lazy_cont [rotated]) (rule Lazy.IH)
next
  case (Group i a)
  from Group.prems have
    "rmatch a (\<lambda>r' c'. k r' (c'(i := Some (take (length r - length r') r)))) r c = Some res"
    by simp
  from Group.IH [OF this] show ?case by blast
next
  case Eos
  then show ?case by (auto split: if_splits)
qed

lemma greedy_agree:
  assumes f: "\<And>k k' r c. (\<And>r' c'. suffix r' r \<Longrightarrow> k r' c' = k' r' c') \<Longrightarrow> f k r c = f k' r c"
    and k: "\<And>r' c'. suffix r' r \<Longrightarrow> k r' c' = k' r' c'"
  shows "greedy f n k r c = greedy f n k' r c"
  using k
proof (induction n arbitrary: r c)
  case 0
  then show ?case by simp
next
  case (Suc n)
  have a: "f (\<lambda>r' c'. if length r' < length r then greedy f n k r' c' else None) r c =
        f (\<lambda>r' c'. if length r' < length r then greedy f n k' r' c' else None) r c"
  proof (rule f)
    fix r1 c1 assume s: "suffix r1 r"
    have "greedy f n k r1 c1 = greedy f n k' r1 c1"
      by (rule Suc.IH) (meson Suc.prems s suffix_order.trans)
    then show "(if length r1 < length r then greedy f n k r1 c1 else None) =
               (if length r1 < length r then greedy f n k' r1 c1 else None)"
      by simp
  qed
  have b: "k r c = k' r c" by (rule Suc.prems) simp
  show ?case by (simp add: a b cong: option.case_cong)
qed

lemma lazy_agree:
  assumes f: "\<And>k k' r c. (\<And>r' c'. suffix r' r \<Longrightarrow> k r' c' = k' r' c') \<Longrightarrow> f k r c = f k' r c"
    and k: "\<And>r' c'. suffix r' r \<Longrightarrow> k r' c' = k' r' c'"
  shows "lazy f n k r c = lazy f n k' r c"
  using k
proof (induction n arbitrary: r c)
  case 0
  then show ?case by simp
next
  case (Suc n)
  have a: "f (\<lambda>r' c'. if length r' < length r then lazy f n k r' c' else None) r c =
        f (\<lambda>r' c'. if length r' < length r then lazy f n k' r' c' else None) r c"
  proof (rule f)
    fix r1 c1 assume s: "suffix r1 r"
    have "lazy f n k r1 c1 = lazy f n k' r1 c1"
      by (rule Suc.IH) (meson Suc.prems s suffix_order.trans)
    then show "(if length r1 < length r then lazy f n k r1 c1 else None) =
               (if length r1 < length r then lazy f n k' r1 c1 else None)"
      by simp
  qed
  have b: "k r c = k' r c" by (rule Suc.prems) simp
  show ?case by (simp add: a b cong: option.case_cong)
qed

lemma rmatch_agree:
  "(\<And>r' c'. suffix r' r \<Longrightarrow> k r' c' = k' r' c') \<Longrightarrow> rmatch e k r c = rmatch e k' r c"
proof (induction e arbitrary: k k' r c)
  case Eps
  then show ?case by simp
next
  case (Sym P)
  then show ?case by (cases r) (simp_all add: suffix_Cons)
next
  case (Seq a b)
  have "rmatch a (rmatch b k) r c = rmatch a (rmatch b k') r c"
  proof (rule Seq.IH(1))
    fix r1 c1 assume s: "suffix r1 r"
    show "rmatch b k r1 c1 = rmatch b k' r1 c1"
      by (rule Seq.IH(2)) (meson Seq.prems s suffix_order.trans)
  qed
  then show ?case by simp
next
  case (Alt a b)
  have "rmatch a k r c = rmatch a k' r c" "rmatch b k r c = rmatch b k' r c"
    using Alt.IH Alt.prems by blast+
  then show ?case by (simp cong: option.case_cong)
next
  case (Star a)
  have "greedy (rmatch a) (length r) k r c = greedy (rmatch a) (length r) k' r c"
    using Star.IH Star.prems by (rule greedy_agree)
  then show ?case by simp
next
  case (Lazy a)
  have "lazy (rmatch a) (length r) k r c = lazy (rmatch a) (length r) k' r c"
    using Lazy.IH Lazy.prems by (rule lazy_agree)
  then show ?case by simp
next
  case (Group i a)
  have "rmatch a (\<lambda>r' c'. k r' (c'(i := Some (take (length r - length r') r)))) r c =
        rmatch a (\<lambda>r' c'. k' r' (c'(i := Some (take (length r - length r') r)))) r c"
    by (rule Group.IH) (simp add: Group.prems)
  then show ?case by simp
next
  case Eos
  then show ?case by simp
qed

lemma rmatch_none: "rmatch e (\<lambda>r' c'. None) r c = None"
proof (cases "rmatch e (\<lambda>r' c'. None) r c")
  case None
  then show ?thesis .
next
  case (Some res)
  from rmatch_cont [OF Some] show ?thesis by simp
qed

text \<open>
  More fuel than the length of the input changes nothing: the counter of \<open>greedy\<close> and
  \<open>lazy\<close> never cuts off an iteration that could succeed.
\<close>

lemma greedy_fuel:
  "length r \<le> n \<Longrightarrow> greedy (rmatch a) (Suc n) k r c = greedy (rmatch a) n k r c"
proof (induction n arbitrary: r c)
  case 0
  then have r: "r = []" by simp
  have "(\<lambda>r' c'. if length r' < length r then greedy (rmatch a) 0 k r' c' else None) =
        (\<lambda>r' c'. None)" by (simp add: r)
  then show ?case by (simp add: rmatch_none)
next
  case (Suc n)
  have a: "rmatch a (\<lambda>r' c'. if length r' < length r then greedy (rmatch a) (Suc n) k r' c' else None) r c =
        rmatch a (\<lambda>r' c'. if length r' < length r then greedy (rmatch a) n k r' c' else None) r c"
  proof (rule rmatch_agree)
    fix r1 c1 assume "suffix r1 r"
    show "(if length r1 < length r then greedy (rmatch a) (Suc n) k r1 c1 else None) =
          (if length r1 < length r then greedy (rmatch a) n k r1 c1 else None)"
    proof (cases "length r1 < length r")
      case True
      then have "length r1 \<le> n" using Suc.prems by simp
      from Suc.IH [OF this] True show ?thesis by simp
    next
      case False
      then show ?thesis by simp
    qed
  qed
  have L: "greedy (rmatch a) (Suc (Suc n)) k r c =
      (case rmatch a (\<lambda>r' c'. if length r' < length r then greedy (rmatch a) (Suc n) k r' c' else None) r c of
         Some x \<Rightarrow> Some x | None \<Rightarrow> k r c)"
    by (rule greedy.simps(2))
  have R: "greedy (rmatch a) (Suc n) k r c =
      (case rmatch a (\<lambda>r' c'. if length r' < length r then greedy (rmatch a) n k r' c' else None) r c of
         Some x \<Rightarrow> Some x | None \<Rightarrow> k r c)"
    by (rule greedy.simps(2))
  show ?case unfolding L R a by (rule refl)
qed

lemma lazy_fuel:
  "length r \<le> n \<Longrightarrow> lazy (rmatch a) (Suc n) k r c = lazy (rmatch a) n k r c"
proof (induction n arbitrary: r c)
  case 0
  then have r: "r = []" by simp
  have "(\<lambda>r' c'. if length r' < length r then lazy (rmatch a) 0 k r' c' else None) =
        (\<lambda>r' c'. None)" by (simp add: r)
  then show ?case by (simp add: rmatch_none split: option.splits)
next
  case (Suc n)
  have a: "rmatch a (\<lambda>r' c'. if length r' < length r then lazy (rmatch a) (Suc n) k r' c' else None) r c =
        rmatch a (\<lambda>r' c'. if length r' < length r then lazy (rmatch a) n k r' c' else None) r c"
  proof (rule rmatch_agree)
    fix r1 c1 assume "suffix r1 r"
    show "(if length r1 < length r then lazy (rmatch a) (Suc n) k r1 c1 else None) =
          (if length r1 < length r then lazy (rmatch a) n k r1 c1 else None)"
    proof (cases "length r1 < length r")
      case True
      then have "length r1 \<le> n" using Suc.prems by simp
      from Suc.IH [OF this] True show ?thesis by simp
    next
      case False
      then show ?thesis by simp
    qed
  qed
  have L: "lazy (rmatch a) (Suc (Suc n)) k r c =
      (case k r c of Some x \<Rightarrow> Some x
       | None \<Rightarrow> rmatch a (\<lambda>r' c'. if length r' < length r then lazy (rmatch a) (Suc n) k r' c' else None) r c)"
    by (rule lazy.simps(2))
  have R: "lazy (rmatch a) (Suc n) k r c =
      (case k r c of Some x \<Rightarrow> Some x
       | None \<Rightarrow> rmatch a (\<lambda>r' c'. if length r' < length r then lazy (rmatch a) n k r' c' else None) r c)"
    by (rule lazy.simps(2))
  show ?case unfolding L R a by (rule refl)
qed

lemma star_fuel:
  "length r \<le> n \<Longrightarrow> greedy (rmatch a) n k r c = rmatch (Star a) k r c"
  "length r \<le> n \<Longrightarrow> lazy (rmatch a) n k r c = rmatch (Lazy a) k r c"
proof -
  have g: "greedy (rmatch a) (length r + d) k r c = greedy (rmatch a) (length r) k r c" for d
    by (induction d) (simp_all add: greedy_fuel del: greedy.simps)
  have l: "lazy (rmatch a) (length r + d) k r c = lazy (rmatch a) (length r) k r c" for d
    by (induction d) (simp_all add: lazy_fuel del: lazy.simps)
  show "length r \<le> n \<Longrightarrow> greedy (rmatch a) n k r c = rmatch (Star a) k r c"
    using g [of "n - length r"] by simp
  show "length r \<le> n \<Longrightarrow> lazy (rmatch a) n k r c = rmatch (Lazy a) k r c"
    using l [of "n - length r"] by simp
qed

lemma DEADLINE_PATTERN_shape: "\<exists>P A B. DEADLINE_PATTERN = Seq (Seq (Sym P) A) B"
  by (simp add: DEADLINE_PATTERN_def seqs_def lit_def js_def)

lemma matchAt_DEADLINE_PATTERN:
  assumes "matchAt DEADLINE_PATTERN i r = Some mt"
  shows "m_index mt = i" "m_0 mt \<noteq> []" "length (m_0 mt) \<le> length r"
proof -
  obtain P A B where s: "DEADLINE_PATTERN = Seq (Seq (Sym P) A) B"
    using DEADLINE_PATTERN_shape by blast
  from assms obtain r' c' where
    rc: "rmatch DEADLINE_PATTERN (\<lambda>r' c. Some (r', c)) r (\<lambda>_. None) = Some (r', c')"
    and mt: "mt = \<lparr>m_index = i, m_0 = take (length r - length r') r, m_group = c'\<rparr>"
    by (auto simp: matchAt_def split: option.splits)
  from rc obtain x xs where r: "r = x # xs"
    and 1: "rmatch A (rmatch B (\<lambda>r' c. Some (r', c))) xs (\<lambda>_. None) = Some (r', c')"
    unfolding s by (cases r) (auto split: if_splits)
  from rmatch_cont [OF 1] obtain r1 c1 where r1: "suffix r1 xs"
    "rmatch B (\<lambda>r' c. Some (r', c)) r1 c1 = Some (r', c')" by blast
  from rmatch_cont [OF r1(2)] obtain r2 c2 where r2: "suffix r2 r1" "Some (r2, c2) = Some (r', c')"
    by blast
  have "length r' \<le> length xs"
    using r1(1) r2 by (auto dest!: suffix_length_le)
  then show "m_index mt = i" "m_0 mt \<noteq> []" "length (m_0 mt) \<le> length r"
    using r mt by auto
qed

lemma searchFrom_DEADLINE_PATTERN:
  "searchFrom DEADLINE_PATTERN i r = Some mt \<Longrightarrow>
     i \<le> m_index mt \<and> m_0 mt \<noteq> [] \<and> m_index mt + length (m_0 mt) \<le> i + length r"
proof (induction r arbitrary: i)
  case Nil
  then show ?case using matchAt_DEADLINE_PATTERN [of i "[]" mt] by simp
next
  case (Cons x xs)
  show ?case
  proof (cases "matchAt DEADLINE_PATTERN i (x # xs)")
    case None
    with Cons.prems have "searchFrom DEADLINE_PATTERN (i + 1) xs = Some mt" by simp
    from Cons.IH [OF this] show ?thesis by simp
  next
    case (Some m')
    with Cons.prems have "m' = mt" by simp
    with Some matchAt_DEADLINE_PATTERN [of i "x # xs" mt] show ?thesis by simp
  qed
qed

lemma exec_DEADLINE_PATTERN:
  "exec DEADLINE_PATTERN content lastIndex = Some mt \<Longrightarrow>
     lastIndex \<le> m_index mt \<and> m_0 mt \<noteq> [] \<and> m_index mt + length (m_0 mt) \<le> length content"
  using searchFrom_DEADLINE_PATTERN [of lastIndex "drop lastIndex content" mt]
  by (auto simp: exec_def split: if_splits)

section \<open>The scan loop\<close>

text \<open>
  The loop terminates on every document, and its result collects, match by match, the
  records and errors of the occurrences.
\<close>

lemma loopBody_append:
  "loopBody path content mt result =
     result\<lparr>pr_annotations := pr_annotations result @ recordsOf path content mt,
            pr_errors := pr_errors result @ errorsOf path content mt\<rparr>"
  by (simp add: loopBody_def recordsOf_def errorsOf_def emptyResult_def Let_def)

lemma parseLoop_matches:
  "parseLoop path content lastIndex result =
     Some (result\<lparr>pr_annotations := pr_annotations result
                      @ concat (map (recordsOf path content) (matchesFrom content lastIndex)),
                  pr_errors := pr_errors result
                      @ concat (map (errorsOf path content) (matchesFrom content lastIndex))\<rparr>)"
proof (induction path content lastIndex result rule: parseLoop.induct)
  case (1 path content lastIndex result)
  show ?case
  proof (cases "exec DEADLINE_PATTERN content lastIndex")
    case None
    then show ?thesis
      by (subst parseLoop.simps, subst (1 2) matchesFrom.simps) simp
  next
    case (Some mt)
    then have adv: "lastIndex < m_index mt + length (m_0 mt)"
      using exec_DEADLINE_PATTERN [OF Some] by (cases "m_0 mt") auto
    from "1.IH" [OF Some adv] Some adv show ?thesis
      by (subst parseLoop.simps, subst (1 2) matchesFrom.simps)
         (simp add: loopBody_append)
  qed
qed

lemma parseDartFile_matches:
  assumes "readFileSync path = Inr content"
  shows "parseDartFile readFileSync path =
     Some \<lparr>pr_filePath = path,
           pr_annotations = concat (map (recordsOf path content) (matchesFrom content 0)),
           pr_errors = concat (map (errorsOf path content) (matchesFrom content 0))\<rparr>"
  using assms by (simp add: parseDartFile_def parseLoop_matches)



lemma loopBody_commented:
  "isInsideComment content (m_index mt) \<Longrightarrow> loopBody path content mt result = result"
  by (simp add: loopBody_def Let_def)

lemma outcome_commented:
  "isInsideComment content (m_index mt) \<Longrightarrow>
     recordsOf path content mt = [] \<and> errorsOf path content mt = []"
  by (simp add: recordsOf_def errorsOf_def loopBody_commented emptyResult_def)




subsection \<open>Commented annotations\<close>

text \<open>
  An offset behind the first \<open>/*\<close> of a document, with no \<open>*/\<close> in between, is inside a
  block comment.
\<close>

lemma blockScan_skip:
  assumes "\<forall>j. i \<le> j \<and> j < n \<longrightarrow> slice content j (j + 2) \<noteq> (if st then js ''*/'' else js ''/*'')"
    "i \<le> n" "n \<le> index"
  shows "blockScan content index st i = blockScan content index st n"
  using assms
proof (induction "n - i" arbitrary: i)
  case 0
  then show ?case by simp
next
  case (Suc d)
  then have i: "i < n" "i < index" by simp_all
  have ne: "slice content i (i + 2) \<noteq> (if st then js ''*/'' else js ''/*'')"
    using Suc.prems(1) i(1) by simp
  have "blockScan content index st i = blockScan content index st (i + 1)"
    using i(2) ne by (subst blockScan.simps) (simp split: if_splits)
  also have "\<dots> = blockScan content index st n"
    using Suc by (intro Suc.hyps(1)) auto
  finally show ?case .
qed

lemma inside_block_comment:
  assumes "\<forall>j<p. slice content j (j + 2) \<noteq> js ''/*''"
    "slice content p (p + 2) = js ''/*''" "p + 2 \<le> index"
    "\<forall>j. p + 2 \<le> j \<and> j < index \<longrightarrow> slice content j (j + 2) \<noteq> js ''*/''"
  shows "isInsideComment content index"
proof -
  have "blockScan content index False 0 = blockScan content index False p"
    using assms(1,3) by (intro blockScan_skip) auto
  also have "\<dots> = blockScan content index True (p + 2)"
    using assms(2,3) by (subst blockScan.simps) simp
  also have "\<dots> = blockScan content index True index"
    using assms(3,4) by (intro blockScan_skip) auto
  also have "\<dots> = True"
    by (subst blockScan.simps) simp
  finally show ?thesis by (simp add: isInsideComment_def)
qed

text \<open>
  C3.  Of an annotation match whose start offset \<open>isInsideComment\<close> classifies as
  commented (inside a block comment by the forward scan \<open>blockScan\<close>, which toggles on
  \<open>/*\<close> and \<open>*/\<close> without nesting, or preceded by \<open>//\<close> on its line), \<open>parseDartFile\<close> keeps
  neither a record nor an error: the iteration hands on the result unchanged.  In
  particular an offset between a first \<open>/*\<close> and the next \<open>*/\<close>, on whatever line, is
  classified as commented.
\<close>

theorem parseDartFile_skips_commented:
  assumes "readFileSync path = Inr content"
  shows "\<exists>result. parseDartFile readFileSync path = Some result
     \<and> pr_filePath result = path
     \<and> pr_annotations result = concat (map (recordsOf path content) (matchesFrom content 0))
     \<and> pr_errors result = concat (map (errorsOf path content) (matchesFrom content 0))
     \<and> (\<forall>mt\<in>set (matchesFrom content 0).
           isInsideComment content (m_index mt) \<longrightarrow>
             recordsOf path content mt = [] \<and> errorsOf path content mt = [])
     \<and> (\<forall>mt collected.
           isInsideComment content (m_index mt) \<longrightarrow>
             loopBody path content mt collected = collected)
     \<and> (\<forall>p index.
           (\<forall>j<p. slice content j (j + 2) \<noteq> js ''/*'')
           \<and> slice content p (p + 2) = js ''/*'' \<and> p + 2 \<le> index
           \<and> (\<forall>j. p + 2 \<le> j \<and> j < index \<longrightarrow> slice content j (j + 2) \<noteq> js ''*/'') \<longrightarrow>
             isInsideComment content index)"
proof -
  have b: "\<forall>p index.
           (\<forall>j<p. slice content j (j + 2) \<noteq> js ''/*'')
           \<and> slice content p (p + 2) = js ''/*'' \<and> p + 2 \<le> index
           \<and> (\<forall>j. p + 2 \<le> j \<and> j < index \<longrightarrow> slice content j (j + 2) \<noteq> js ''*/'') \<longrightarrow>
             isInsideComment content index"
    using inside_block_comment [of _ content] by blast
  show ?thesis
    using parseDartFile_matches [of readFileSync path content, OF assms] outcome_commented
      loopBody_commented b
    by simp
qed

lemma commentedDoc_matches: "map m_index (matchesFrom commentedDoc 0) = [7, 66]"
  by (simp add: matchesFrom.simps exec_def commentedDoc_def DEADLINE_PATTERN_def rx_eval)

lemma commentedDoc_block:
  "\<forall>j<0. slice commentedDoc j (j + 2) \<noteq> js ''/*''"
  "slice commentedDoc 0 (0 + 2) = js ''/*''"
  "\<forall>j. 0 + 2 \<le> j \<and> j < 7 \<longrightarrow> slice commentedDoc j (j + 2) \<noteq> js ''*/''"
proof -
  show "\<forall>j<0. slice commentedDoc j (j + 2) \<noteq> js ''/*''" by simp
  show "slice commentedDoc 0 (0 + 2) = js ''/*''"
    by (simp add: commentedDoc_def slice_def js_def)
  show "\<forall>j. 0 + 2 \<le> j \<and> j < 7 \<longrightarrow> slice commentedDoc j (j + 2) \<noteq> js ''*/''"
  proof (intro allI impI)
    fix j :: nat assume "0 + 2 \<le> j \<and> j < 7"
    then consider "j = 2" | "j = 3" | "j = 4" | "j = 5" | "j = 6" by arith
    then show "slice commentedDoc j (j + 2) \<noteq> js ''*/''"
      by cases (simp_all add: commentedDoc_def slice_def js_def)
  qed
qed

lemma commentedDoc_line: "isInsideComment commentedDoc 66"
  by (simp add: isInsideComment_def blockScan.simps lineStartOf.simps commentedDoc_def slice_def
        charAt_def match_def rx_eval)

text \<open>
  An annotation between \<open>/*\<close> and \<open>*/\<close>, spread over two lines, and one behind \<open>//\<close>: no
  record and no error.
\<close>

theorem parseDartFile_skips_commented_witness:
  "(\<lambda>p. Inr commentedDoc) (js ''lib/a.dart'') = (Inr commentedDoc :: jsstring + jsstring)
   \<and> map m_index (matchesFrom commentedDoc 0) = [7, 66]
   \<and> isInsideComment commentedDoc 7 \<and> isInsideComment commentedDoc 66
   \<and> parseDartFile (\<lambda>p. Inr commentedDoc) (js ''lib/a.dart'') =
        Some \<lparr>pr_filePath = js ''lib/a.dart'', pr_annotations = [], pr_errors = []\<rparr>"
proof -
  have r: "(\<lambda>p. Inr commentedDoc) (js ''lib/a.dart'') = (Inr commentedDoc :: jsstring + jsstring)"
    by simp
  from commentedDoc_matches obtain m1 m2 where mt: "matchesFrom commentedDoc 0 = [m1, m2]"
    "m_index m1 = 7" "m_index m2 = 66"
    by auto
  from parseDartFile_skips_commented [of "\<lambda>p. Inr commentedDoc" "js ''lib/a.dart''" commentedDoc, OF r]
  obtain result where res:
    "parseDartFile (\<lambda>p. Inr commentedDoc) (js ''lib/a.dart'') = Some result"
    "pr_filePath result = js ''lib/a.dart''"
    "pr_annotations result =
       concat (map (recordsOf (js ''lib/a.dart'') commentedDoc) (matchesFrom commentedDoc 0))"
    "pr_errors result =
       concat (map (errorsOf (js ''lib/a.dart'') commentedDoc) (matchesFrom commentedDoc 0))"
    "\<forall>mt\<in>set (matchesFrom commentedDoc 0).
           isInsideComment commentedDoc (m_index mt) \<longrightarrow>
             recordsOf (js ''lib/a.dart'') commentedDoc mt = []
             \<and> errorsOf (js ''lib/a.dart'') commentedDoc mt = []"
    "\<forall>p index.
           (\<forall>j<p. slice commentedDoc j (j + 2) \<noteq> js ''/*'')
           \<and> slice commentedDoc p (p + 2) = js ''/*'' \<and> p + 2 \<le> index
           \<and> (\<forall>j. p + 2 \<le> j \<and> j < index \<longrightarrow> slice commentedDoc j (j + 2) \<noteq> js ''*/'') \<longrightarrow>
             isInsideComment commentedDoc index"
    by blast
  have i1: "isInsideComment commentedDoc 7"
    using res(6) [rule_format, of 0 7] commentedDoc_block by simp
  have "pr_annotations result = []" "pr_errors result = []"
    using res(3,4,5) mt i1 commentedDoc_line by simp_all
  with res(2) have "result = \<lparr>pr_filePath = js ''lib/a.dart'', pr_annotations = [], pr_errors = []\<rparr>"
    by (cases result) simp
  with res(1) commentedDoc_matches i1 commentedDoc_line show ?thesis by simp
qed

subsection \<open>Missing and invalid date parameters\<close>












section \<open>Balanced-brace extraction\<close>


























section \<open>Notification composer\<close>






text \<open>
  C8.  For an empty list of records the message has exactly one block, a section that
  carries the check mark and the "no deadlines" text of the configured language; there is
  no header, no summary and no divider.
\<close>

theorem buildSlackMessage_empty:
  "buildSlackMessage [] config today =
     \<lparr>channel = None,
      mtext = msg_noDeadlines (MESSAGES (language config)),
      blocks = Some [\<lparr>btype = js ''section'',
                      btext = Some \<lparr>ttype = js ''mrkdwn'',
                                    ttext = js '':white_check_mark: ''
                                              @ msg_noDeadlines (MESSAGES (language config)),
                                    emoji = None\<rparr>,
                      bfields = None\<rparr>]\<rparr>
   \<and> js ''section'' \<noteq> js ''header'' \<and> js ''section'' \<noteq> js ''divider''
   \<and> msg_noDeadlines (MESSAGES En) = js ''No deadlines require attention today''
   \<and> msg_noDeadlines (MESSAGES Ja) =
        [0x672C, 0x65E5, 0x5BFE, 0x5FDC, 0x304C, 0x5FC5, 0x8981, 0x306A, 0x30C7, 0x30C3, 0x30C9,
         0x30E9, 0x30A4, 0x30F3, 0x306F, 0x3042, 0x308A, 0x307E, 0x305B, 0x3093]"
proof -
  have "buildSlackMessage [] config today =
     \<lparr>channel = None,
      mtext = msg_noDeadlines (MESSAGES (language config)),
      blocks = Some [\<lparr>btype = js ''section'',
                      btext = Some \<lparr>ttype = js ''mrkdwn'',
                                    ttext = js '':white_check_mark: ''
                                              @ msg_noDeadlines (MESSAGES (language config)),
                                    emoji = None\<rparr>,
                      bfields = None\<rparr>]\<rparr>"
    by (simp add: buildSlackMessage_def Let_def sectionText_def mrkdwn_def)
  moreover have "js ''section'' \<noteq> js ''header''" "js ''section'' \<noteq> js ''divider''"
    by (simp_all add: js_def)
  moreover have "msg_noDeadlines (MESSAGES En) = js ''No deadlines require attention today''"
    by (simp add: MESSAGES_def)
  moreover have "msg_noDeadlines (MESSAGES Ja) =
        [0x672C, 0x65E5, 0x5BFE, 0x5FDC, 0x304C, 0x5FC5, 0x8981, 0x306A, 0x30C7, 0x30C3, 0x30C9,
         0x30E9, 0x30A4, 0x30F3, 0x306F, 0x3042, 0x308A, 0x307E, 0x305B, 0x3093]"
    by (simp add: MESSAGES_def)
  ultimately show ?thesis by simp
qed

lemma headerText_En: "trim (replaceAll (msg_title (MESSAGES En)) emojiRe []) = js ''Deadline Reminder''"
  by (simp add: MESSAGES_def trim_def replaceAll_def emojiRe_def seqs_def lit_def plus_def js_def
      matchAt_def noneOf_def isSpace_def)

subsection \<open>Mentions\<close>

lemma extract_examples:
  "extractGitHubUsername (js ''12345678+username@users.noreply.github.com'') = Some (js ''username'')"
  "extractGitHubUsername (js ''username@users.noreply.github.com'') = Some (js ''username'')"
  "extractGitHubUsername (js ''dev@example.com'') = None"
  by (simp_all add: extractGitHubUsername_def noreplyRe_def oldNoreplyRe_def rx_eval)






















subsection \<open>Custom templates\<close>

text \<open>
  C6.  With the template \<open>Remove {{elementName\<close>, whose placeholder misses its closing
  delimiter, \<open>buildCustomSlackMessage\<close> returns the template text as it stands, without
  blocks; that is not the message built when no template is configured.
\<close>

theorem buildCustomSlackMessage_malformed_template:
  "buildCustomSlackMessage [exampleAnnotation 2024 3 5]
      (exampleConfig\<lparr>customTemplate := Some (js ''Remove {{elementName'')\<rparr>) exampleToday
     = \<lparr>channel = Some (js ''#dev''), mtext = js ''Remove {{elementName'', blocks = None\<rparr>
   \<and> buildCustomSlackMessage [exampleAnnotation 2024 3 5]
        (exampleConfig\<lparr>customTemplate := Some (js ''Remove {{elementName'')\<rparr>) exampleToday
       \<noteq> buildCustomSlackMessage [exampleAnnotation 2024 3 5] exampleConfig exampleToday"
proof -
  have r: "replaceAll (js ''Remove {{elementName'') (lit p) v = js ''Remove {{elementName''"
    if "p \<in> {''{{count}}'', ''{{date}}'', ''{{elementName}}'', ''{{filePath}}'', ''{{lineNumber}}'',
              ''{{deadline}}'', ''{{author}}'', ''{{description}}'', ''{{codeBlock}}'',
              ''{{githubUrl}}'', ''{{daysDiff}}'', ''{{mention}}'', ''{{slackMention}}''}" for p v
    using that by (auto simp: replaceAll_def rx_eval)
  have 1: "buildCustomSlackMessage [exampleAnnotation 2024 3 5]
      (exampleConfig\<lparr>customTemplate := Some (js ''Remove {{elementName'')\<rparr>) exampleToday
     = \<lparr>channel = Some (js ''#dev''), mtext = js ''Remove {{elementName'', blocks = None\<rparr>"
    by (simp add: buildCustomSlackMessage_def renderTemplate_def exampleConfig_def truthy_def
          str_def Let_def r join_def) (simp add: js_def)
  have 2: "blocks (buildCustomSlackMessage [exampleAnnotation 2024 3 5] exampleConfig exampleToday) \<noteq> None"
    by (simp add: buildCustomSlackMessage_def exampleConfig_def truthy_def buildSlackMessage_def Let_def)
  have 3: "blocks (buildCustomSlackMessage [exampleAnnotation 2024 3 5]
      (exampleConfig\<lparr>customTemplate := Some (js ''Remove {{elementName'')\<rparr>) exampleToday) = None"
    unfolding 1 by simp
  have "buildCustomSlackMessage [exampleAnnotation 2024 3 5]
        (exampleConfig\<lparr>customTemplate := Some (js ''Remove {{elementName'')\<rparr>) exampleToday
       \<noteq> buildCustomSlackMessage [exampleAnnotation 2024 3 5] exampleConfig exampleToday"
  proof
    assume "buildCustomSlackMessage [exampleAnnotation 2024 3 5]
        (exampleConfig\<lparr>customTemplate := Some (js ''Remove {{elementName'')\<rparr>) exampleToday
       = buildCustomSlackMessage [exampleAnnotation 2024 3 5] exampleConfig exampleToday"
    then have "blocks (buildCustomSlackMessage [exampleAnnotation 2024 3 5] exampleConfig exampleToday)
       = None" using 3 by simp
    with 2 show False by simp
  qed
  with 1 show ?thesis by simp
qed

end
